theory Spec2Isabelle
  imports Complex_Main
begin

section \<open>JavaScript values\<close>

text \<open>
  The handlers of \<^verbatim>\<open>src/adapters/drizzle.ts\<close> work on values produced by
  \<^verbatim>\<open>JSON.parse\<close>.  A JSON object is the list of its own properties in enumeration
  order (the keys of one object are pairwise distinct); a number is its mathematical value
  (the doubles of the source agree with it below \<open>2 ^ 53\<close>).
\<close>

datatype json =
    JNull
  | JBool bool
  | JNum rat
  | JStr string
  | JArr "json list"
  | JObj "(string \<times> json) list"

text \<open>The exceptions of the runtime that the code can raise: the call of a property
  that is not a function, and the use of a name that is not bound.  Their messages are
  worded as V8 words them.\<close>

datatype js_error = TypeError string | ReferenceError string

fun error_message :: "js_error \<Rightarrow> string" where
  "error_message (TypeError callee) = callee @ '' is not a function''"
| "error_message (ReferenceError ident) = ident @ '' is not defined''"

text \<open>Truthiness, as tested by \<^verbatim>\<open>if (v)\<close> and \<^verbatim>\<open>!v\<close>.\<close>

fun truthy :: "json \<Rightarrow> bool" where
  "truthy JNull = False"
| "truthy (JBool b) = b"
| "truthy (JNum n) = (n \<noteq> 0)"
| "truthy (JStr s) = (s \<noteq> [])"
| "truthy (JArr xs) = True"
| "truthy (JObj kvs) = True"

text \<open>\<^verbatim>\<open>typeof v === 'object'\<close> (true of \<^verbatim>\<open>null\<close>, of arrays and of objects).\<close>

fun typeof_object :: "json \<Rightarrow> bool" where
  "typeof_object JNull = True"
| "typeof_object (JArr xs) = True"
| "typeof_object (JObj kvs) = True"
| "typeof_object v = False"

text \<open>Decimal rendering of an array index, and the value of a digit string.\<close>

definition digit_char :: "nat \<Rightarrow> char" where
  "digit_char d = char_of (of_char (CHR ''0'') + d)"

function show_nat :: "nat \<Rightarrow> string" where
  "show_nat n = (if n < 10 then [digit_char n] else show_nat (n div 10) @ [digit_char (n mod 10)])"
  by pat_completeness auto
termination
  by (relation "measure id") auto

declare show_nat.simps [simp del]

definition is_digit :: "char \<Rightarrow> bool" where
  "is_digit c = (c \<in> set ''0123456789'')"

definition digit_val :: "char \<Rightarrow> nat" where
  "digit_val c = of_char c - of_char (CHR ''0'')"

definition decimal :: "string \<Rightarrow> nat" where
  "decimal ds = foldl (\<lambda>acc c. 10 * acc + digit_val c) 0 ds"

text \<open>The own enumerable properties a \<^verbatim>\<open>for (key in v)\<close> loop visits, with their
  values: the properties of an object, the indices of an array or of a string.\<close>

fun own_props :: "json \<Rightarrow> (string \<times> json) list" where
  "own_props (JObj kvs) = kvs"
| "own_props (JArr xs) = zip (map show_nat [0..<length xs]) xs"
| "own_props (JStr s) = zip (map show_nat [0..<length s]) (map (\<lambda>c. JStr [c]) s)"
| "own_props v = []"

text \<open>Reading a named property \<^verbatim>\<open>v.key\<close> for a key that no prototype defines:
  only an object can have it.\<close>

fun get_prop :: "json \<Rightarrow> string \<Rightarrow> json option" where
  "get_prop (JObj kvs) key = map_of kvs key"
| "get_prop v key = None"

text \<open>\<^verbatim>\<open>v.hasOwnProperty(key)\<close> calls whatever the property \<^verbatim>\<open>hasOwnProperty\<close>
  of \<open>v\<close> is: the inherited method, unless the object has an own property of that name,
  which, coming from JSON, is never a function.\<close>

definition hasOwnProperty_callable :: "json \<Rightarrow> bool" where
  "hasOwnProperty_callable v = (get_prop v ''hasOwnProperty'' = None)"

text \<open>\<^verbatim>\<open>Object.keys(v)\<close>, and \<^verbatim>\<open>key in v\<close> for an object or an array and a key
  that no prototype defines and that is not \<^verbatim>\<open>length\<close>.\<close>

definition Object_keys :: "json \<Rightarrow> string list" where
  "Object_keys v = map fst (own_props v)"

definition has_key :: "string \<Rightarrow> json \<Rightarrow> bool" where
  "has_key key v = (key \<in> set (Object_keys v))"

section \<open>The schema registry and the storage executor\<close>

text \<open>A column of a table definition, with the metadata the code reads from it.\<close>

record column =
  name :: string
  dataType :: string
  columnType :: string
  col_type :: string
  col_description :: string
  notNull :: bool
  isNullable :: "bool option"
  hasDefault :: bool
  defaultNow :: bool
  defaultRandom :: bool

text \<open>A property of a table object is a column or something else (a function such as
  \<^verbatim>\<open>enableRLS\<close> or an inherited method), which is known by its name only.  A table
  object is the list of its own enumerable properties in order, as \<^verbatim>\<open>Object.entries\<close>
  gives them, together with the names of the properties it inherits from its prototypes.\<close>

datatype table_property = Column column | Other string

record table =
  own_entries :: "(string \<times> table_property) list"
  inherited :: "string list"

text \<open>\<^verbatim>\<open>tableSchema[key]\<close>: an own property, else an inherited one, else
  \<^verbatim>\<open>undefined\<close>.  Every property of a table object is truthy, so that
  \<^verbatim>\<open>key in tableSchema\<close> holds exactly when the result is not \<open>None\<close>.\<close>

definition table_get :: "table \<Rightarrow> string \<Rightarrow> table_property option" where
  "table_get tableSchema key =
     (case map_of (own_entries tableSchema) key of
        Some v \<Rightarrow> Some v
      | None \<Rightarrow> if key \<in> set (inherited tableSchema) then Some (Other key) else None)"

text \<open>The schema is the module of the exported tables: a list of named tables, with
  nothing inherited.\<close>

type_synonym schema = "(string \<times> table) list"

text \<open>The conditions of the query builder (\<^verbatim>\<open>drizzle-orm\<close>).  The adapter imports
  \<^verbatim>\<open>and, asc, desc, eq, gt, gte, ilike, lt, lte, not, or\<close>; the library also has
  \<^verbatim>\<open>ne\<close> and the case-sensitive \<^verbatim>\<open>like\<close>.\<close>

datatype sql =
    Eq table_property json
  | Ne table_property json
  | Gt table_property json
  | Gte table_property json
  | Lt table_property json
  | Lte table_property json
  | Like table_property json
  | Ilike table_property json
  | Not_sql sql
  | And "sql list"
  | Or "sql list"

datatype ordering = Asc "table_property option" | Desc "table_property option"

record select_query =
  q_fields :: "(string \<times> table_property) list option"
  q_from :: table
  q_where :: "sql option"
  q_orderBy :: "ordering list"
  q_limit :: "int option"
  q_offset :: "int option"

datatype query =
    Select select_query
  | Insert table json
  | Update table json sql
  | Delete table sql

text \<open>The executor runs one query: the promise is rejected with an error message, or
  fulfilled with the rows.\<close>

type_synonym database = "query \<Rightarrow> string + json list"

record config =
  db :: database
  schema :: schema

section \<open>The condition compiler\<close>

text \<open>The helper \<^verbatim>\<open>objectToEntries\<close>: its loop calls \<^verbatim>\<open>obj.hasOwnProperty\<close> on the
  first key it visits.\<close>

definition objectToEntries :: "json \<Rightarrow> js_error + (string \<times> json) list" where
  "objectToEntries obj =
     (if own_props obj \<noteq> [] \<and> \<not> hasOwnProperty_callable obj
      then Inl (TypeError ''obj.hasOwnProperty'')
      else Inr (own_props obj))"

text \<open>The \<^verbatim>\<open>switch (operator)\<close> of a field node.\<close>

definition operator_condition :: "table_property \<Rightarrow> string \<times> json \<Rightarrow> sql option" where
  "operator_condition col entry =
     (let operator = fst entry; operatorValue = snd entry in
      if operator = ''eq'' then Some (Eq col operatorValue)
      else if operator = ''ne'' then Some (Not_sql (Eq col operatorValue))
      else if operator = ''gt'' then Some (Gt col operatorValue)
      else if operator = ''gte'' then Some (Gte col operatorValue)
      else if operator = ''lt'' then Some (Lt col operatorValue)
      else if operator = ''lte'' then Some (Lte col operatorValue)
      else if operator = ''like'' then Some (Ilike col operatorValue)
      else if operator = ''ilike'' then Some (Ilike col operatorValue)
      else None)"

text \<open>\<^verbatim>\<open>and(...cs)\<close>, pushed only when \<open>cs\<close> is not empty.\<close>

definition push_and :: "sql list \<Rightarrow> sql list" where
  "push_and cs = (if cs \<noteq> [] then [And cs] else [])"

definition push_or :: "sql list \<Rightarrow> sql list" where
  "push_or cs = (if cs \<noteq> [] then [Or cs] else [])"

text \<open>The loop over the field entries of a filter object.\<close>

fun field_conditions :: "(string \<times> json) list \<Rightarrow> table \<Rightarrow> js_error + sql list" where
  "field_conditions [] tableSchema = Inr []"
| "field_conditions ((key, v) # rest) tableSchema =
     (if key \<in> set [''AND'', ''OR'', ''NOT''] then field_conditions rest tableSchema
      else case table_get tableSchema key of
        None \<Rightarrow> field_conditions rest tableSchema
      | Some col \<Rightarrow>
          if typeof_object v \<and> v \<noteq> JNull then
            (case objectToEntries v of
               Inl e \<Rightarrow> Inl e
             | Inr ops \<Rightarrow>
                 (case field_conditions rest tableSchema of
                    Inl e \<Rightarrow> Inl e
                  | Inr cs \<Rightarrow> Inr (push_and (List.map_filter (operator_condition col) ops) @ cs)))
          else
            (case field_conditions rest tableSchema of
               Inl e \<Rightarrow> Inl e
             | Inr cs \<Rightarrow> Inr (Eq col v # cs)))"

text \<open>\<^verbatim>\<open>xs.map(build).filter(c => c !== undefined)\<close>, an exception of one call ending
  the whole.\<close>

fun only_defined :: "(js_error + sql option) list \<Rightarrow> js_error + sql list" where
  "only_defined [] = Inr []"
| "only_defined (Inl e # rs) = Inl e"
| "only_defined (Inr r # rs) =
     (case only_defined rs of
        Inl e \<Rightarrow> Inl e
      | Inr cs \<Rightarrow> Inr (case r of None \<Rightarrow> cs | Some c \<Rightarrow> c # cs))"

lemma size_map_of_less:
  "map_of kvs key = Some v \<Longrightarrow> size (v::json) < Suc (size_list (size_prod (\<lambda>_. 0) size) kvs)"
  by (induction kvs) (auto split: if_splits)

lemma size_get_prop_less: "get_prop w key = Some v \<Longrightarrow> size v < size w"
  by (cases w) (auto dest: size_map_of_less)

lemma size_member_less: "c \<in> set xs \<Longrightarrow> size (c::json) < Suc (size_list size xs)"
  by (induction xs) auto

text \<open>The three logical keys.  Each takes the results of the recursive calls the
  source makes for it (\<open>None\<close> when the key is absent or of the wrong shape).\<close>

definition and_part :: "(js_error + sql option) list option \<Rightarrow> js_error + sql list" where
  "and_part calls =
     (case calls of
        None \<Rightarrow> Inr []
      | Some rs \<Rightarrow> (case only_defined rs of Inl e \<Rightarrow> Inl e | Inr cs \<Rightarrow> Inr (push_and cs)))"

definition or_part :: "(js_error + sql option) list option \<Rightarrow> js_error + sql list" where
  "or_part calls =
     (case calls of
        None \<Rightarrow> Inr []
      | Some rs \<Rightarrow> (case only_defined rs of Inl e \<Rightarrow> Inl e | Inr cs \<Rightarrow> Inr (push_or cs)))"

definition not_part :: "(js_error + sql option) option \<Rightarrow> js_error + sql list" where
  "not_part call =
     (case call of
        None \<Rightarrow> Inr []
      | Some (Inl e) \<Rightarrow> Inl e
      | Some (Inr None) \<Rightarrow> Inr []
      | Some (Inr (Some notCondition)) \<Rightarrow> Inr [Not_sql notCondition])"

definition field_part :: "json \<Rightarrow> table \<Rightarrow> js_error + sql list" where
  "field_part whereObj tableSchema =
     (case objectToEntries whereObj of
        Inl e \<Rightarrow> Inl e
      | Inr entries \<Rightarrow> field_conditions entries tableSchema)"

text \<open>The statements of the function body in their order: the first exception ends
  it; otherwise \<^verbatim>\<open>conditions.length > 0 ? and(...conditions) : undefined\<close>.\<close>

definition in_sequence ::
  "js_error + sql list \<Rightarrow> js_error + sql list \<Rightarrow> js_error + sql list \<Rightarrow> js_error + sql list
     \<Rightarrow> js_error + sql option" where
  "in_sequence a b c d =
     (case a of Inl e \<Rightarrow> Inl e | Inr andPart \<Rightarrow>
      case b of Inl e \<Rightarrow> Inl e | Inr orPart \<Rightarrow>
      case c of Inl e \<Rightarrow> Inl e | Inr notPart \<Rightarrow>
      case d of Inl e \<Rightarrow> Inl e | Inr fieldPart \<Rightarrow>
        (let conditions = andPart @ orPart @ notPart @ fieldPart in
         Inr (if conditions \<noteq> [] then Some (And conditions) else None)))"

function buildWhereCondition :: "json \<Rightarrow> table \<Rightarrow> js_error + sql option" where
  "buildWhereCondition whereObj tableSchema =
     (if \<not> truthy whereObj \<or> \<not> typeof_object whereObj then Inr None
      else
        in_sequence
          (and_part
             (case get_prop whereObj ''AND'' of
                Some (JArr xs) \<Rightarrow> Some (map (\<lambda>condition. buildWhereCondition condition tableSchema) xs)
              | _ \<Rightarrow> None))
          (or_part
             (case get_prop whereObj ''OR'' of
                Some (JArr xs) \<Rightarrow> Some (map (\<lambda>condition. buildWhereCondition condition tableSchema) xs)
              | _ \<Rightarrow> None))
          (not_part
             (case get_prop whereObj ''NOT'' of
                Some n \<Rightarrow> if truthy n then Some (buildWhereCondition n tableSchema) else None
              | None \<Rightarrow> None))
          (field_part whereObj tableSchema))"
  by pat_completeness auto
termination
proof (relation "measure (\<lambda>(w, t). size w)", goal_cases)
  case 1
  show ?case by simp
next
  case (2 whereObj tableSchema x2 x6 condition)
  then show ?case
    using size_get_prop_less [of whereObj "''AND''" "JArr x6"] size_member_less [of condition x6]
    by simp
next
  case (3 whereObj tableSchema x2 x6 condition)
  then show ?case
    using size_get_prop_less [of whereObj "''OR''" "JArr x6"] size_member_less [of condition x6]
    by simp
next
  case (4 whereObj tableSchema x2)
  then show ?case
    using size_get_prop_less [of whereObj "''NOT''" x2]
    by simp
qed

declare buildWhereCondition.simps [simp del]

section \<open>Requests, query parameters and responses\<close>

text \<open>What the handlers read of a \<^verbatim>\<open>Request\<close>: the path and the decoded search
  parameters of its URL (the URL of a request is always well formed), and the outcome of
  \<^verbatim>\<open>request.json()\<close>, \<open>None\<close> when that promise is rejected.\<close>

record request =
  pathname :: string
  searchParams :: "(string \<times> string) list"
  json_body :: "json option"

text \<open>The response envelope and the HTTP response carrying it.\<close>

record meta =
  m_total :: nat
  m_page :: "int option"
  m_limit :: "int option"

record envelope =
  success :: bool
  data :: "json option"
  error :: "string option"
  message :: "string option"
  meta :: "meta option"

record response =
  status :: nat
  body :: envelope

text \<open>\<^verbatim>\<open>Response.json({ success: false, error }, { status })\<close>, without and with a
  \<^verbatim>\<open>message\<close>.\<close>

definition failure :: "nat \<Rightarrow> string \<Rightarrow> response" where
  "failure code err =
     \<lparr> status = code,
       body = \<lparr> success = False, data = None, error = Some err, message = None, meta = None \<rparr> \<rparr>"

definition failure_with :: "nat \<Rightarrow> string \<Rightarrow> string \<Rightarrow> response" where
  "failure_with code err msg =
     \<lparr> status = code,
       body = \<lparr> success = False, data = None, error = Some err, message = Some msg, meta = None \<rparr> \<rparr>"

text \<open>\<^verbatim>\<open>Response.json({ success: true, data: result, message })\<close> of the mutations.\<close>

definition mutated :: "json list \<Rightarrow> string \<Rightarrow> response" where
  "mutated result verb =
     \<lparr> status = 200,
       body = \<lparr> success = True, data = Some (JArr result), error = None,
                message = Some (''Successfully '' @ verb @ '' '' @ show_nat (length result) @ '' record(s)''),
                meta = None \<rparr> \<rparr>"

text \<open>A handler resolves its promise with one response; the model returns it together
  with the queries handed to the executor on the way.\<close>

type_synonym outcome = "response \<times> query list"

text \<open>The two ways a handler body ends before the query is run: it resolves with a
  response and returns, or an exception is thrown.\<close>

datatype early = Resolve response | Throw js_error

text \<open>The object \<^verbatim>\<open>createHandler\<close> returns.  Five of its functions always
  return a promise; \<^verbatim>\<open>PATCH\<close> evaluates an expression first, which can throw.\<close>

record handlers =
  h_GET :: "request \<Rightarrow> outcome"
  h_GET_BY_ID :: "request \<Rightarrow> outcome"
  h_POST :: "request \<Rightarrow> outcome"
  h_PUT :: "request \<Rightarrow> outcome"
  h_PATCH :: "request \<Rightarrow> js_error + outcome"
  h_DELETE :: "request \<Rightarrow> outcome"

text \<open>What the code takes from the platform as it comes: \<^verbatim>\<open>JSON.parse\<close>
  (\<open>None\<close> when it throws), the conversion of a value to text in a template literal,
  and the value of \<^verbatim>\<open>module.exports.createHandler\<close>: \<open>None\<close> where the name
  \<^verbatim>\<open>module\<close> is not bound, as in an ES module, which the \<^verbatim>\<open>import\<close> and
  \<^verbatim>\<open>export\<close> statements of the adapter make it; in a CommonJS build, the exported
  function.\<close>

record runtime =
  JSON_parse :: "string \<Rightarrow> json option"
  to_text :: "json \<Rightarrow> string"
  module_exports_createHandler :: "(config \<Rightarrow> handlers) option"

definition template_text :: "runtime \<Rightarrow> json \<Rightarrow> string" where
  "template_text rt v = (case v of JStr s \<Rightarrow> s | _ \<Rightarrow> to_text rt v)"

text \<open>\<^verbatim>\<open>s.split(sep)\<close> for a one-character separator.\<close>

fun str_split :: "char \<Rightarrow> string \<Rightarrow> string list" where
  "str_split sep [] = [[]]"
| "str_split sep (c # cs) =
     (if c = sep then [] # str_split sep cs
      else case str_split sep cs of
             [] \<Rightarrow> [[c]]
           | w # ws \<Rightarrow> (c # w) # ws)"

text \<open>The white space \<^verbatim>\<open>trim\<close> and \<^verbatim>\<open>parseInt\<close> skip, among the characters
  below 256 that a text is made of here.\<close>

definition is_space :: "char \<Rightarrow> bool" where
  "is_space c = (c \<in> set [CHR 0x09, CHR 0x0A, CHR 0x0B, CHR 0x0C, CHR 0x0D, CHR 0x20, CHR 0xA0])"

definition trim :: "string \<Rightarrow> string" where
  "trim s = rev (dropWhile is_space (rev (dropWhile is_space s)))"

text \<open>\<^verbatim>\<open>parseInt(s, 10)\<close>; \<open>None\<close> is \<^verbatim>\<open>NaN\<close>.\<close>

definition parseInt :: "string \<Rightarrow> int option" where
  "parseInt s =
     (let t = dropWhile is_space s;
          negative = (case t of [] \<Rightarrow> False | c # r \<Rightarrow> c = CHR ''-'');
          u = (case t of [] \<Rightarrow> [] | c # r \<Rightarrow> if c = CHR ''-'' \<or> c = CHR ''+'' then r else t);
          ds = takeWhile is_digit u
      in if ds = [] then None
         else Some (if negative then - int (decimal ds) else int (decimal ds)))"

text \<open>\<^verbatim>\<open>pathname.split('/').filter(Boolean)\<close>, without a leading \<^verbatim>\<open>api\<close>.\<close>

definition path_parts :: "request \<Rightarrow> string list" where
  "path_parts url =
     (let pathParts = filter (\<lambda>part. part \<noteq> []) (str_split (CHR ''/'') (pathname url)) in
      case pathParts of
        [] \<Rightarrow> []
      | first # others \<Rightarrow> if first = ''api'' then others else pathParts)"

definition extractTableFromUrl :: "request \<Rightarrow> string option" where
  "extractTableFromUrl url = (case path_parts url of [] \<Rightarrow> None | tableName # others \<Rightarrow> Some tableName)"

text \<open>\<^verbatim>\<open>tableName in schema\<close>.  A handler tests it and then reads
  \<^verbatim>\<open>schema[tableName]\<close>; below, the two are one lookup in the schema.\<close>

definition validateTable :: "config \<Rightarrow> string \<Rightarrow> bool" where
  "validateTable config tableName = (map_of (schema config) tableName \<noteq> None)"

definition validateFields :: "config \<Rightarrow> string \<Rightarrow> string list \<Rightarrow> string list" where
  "validateFields config tableName fieldNames =
     (case map_of (schema config) tableName of
        None \<Rightarrow> []
      | Some tableSchema \<Rightarrow>
          filter (\<lambda>field. field = ''*'' \<or> table_get tableSchema field \<noteq> None) fieldNames)"

record QueryParams =
  p_select :: "string list option"
  p_where :: "json option"
  p_orderBy :: "json option"
  p_limit :: "int option"
  p_page :: "int option"
  p_offset :: "int option"

text \<open>\<^verbatim>\<open>searchParams.get(key)\<close> followed by \<^verbatim>\<open>if (value)\<close>: an empty text counts as
  absent.\<close>

definition search_param :: "request \<Rightarrow> string \<Rightarrow> string option" where
  "search_param url key =
     (case map_of (searchParams url) key of
        None \<Rightarrow> None
      | Some v \<Rightarrow> if v \<noteq> [] then Some v else None)"

definition parseQueryParams :: "runtime \<Rightarrow> request \<Rightarrow> QueryParams" where
  "parseQueryParams rt url =
     \<lparr> p_select =
         (case search_param url ''select'' of
            None \<Rightarrow> None
          | Some select \<Rightarrow> Some (map trim (str_split (CHR '','') select))),
       p_where =
         (case search_param url ''where'' of
            None \<Rightarrow> None
          | Some w \<Rightarrow> JSON_parse rt w),
       p_orderBy =
         (case search_param url ''orderBy'' of
            None \<Rightarrow> None
          | Some orderBy \<Rightarrow> JSON_parse rt orderBy),
       p_limit =
         (case search_param url ''limit'' of
            None \<Rightarrow> None
          | Some limit \<Rightarrow>
              (case parseInt limit of
                 None \<Rightarrow> None
               | Some numLimit \<Rightarrow> if numLimit > 0 then Some numLimit else None)),
       p_page =
         (case search_param url ''page'' of
            None \<Rightarrow> None
          | Some page \<Rightarrow>
              (case parseInt page of
                 None \<Rightarrow> None
               | Some numPage \<Rightarrow> if numPage > 0 then Some numPage else None)),
       p_offset =
         (case search_param url ''offset'' of
            None \<Rightarrow> None
          | Some offset \<Rightarrow>
              (case parseInt offset of
                 None \<Rightarrow> None
               | Some numOffset \<Rightarrow> if numOffset \<ge> 0 then Some numOffset else None)) \<rparr>"

section \<open>The handlers of \<^verbatim>\<open>createHandler\<close>\<close>

definition table_not_found :: "string \<Rightarrow> response" where
  \<open>table_not_found tableName = failure 404 (''Table "'' @ tableName @ ''" not found'')\<close>

text \<open>\<^verbatim>\<open>if (n)\<close> on an optional number: set and not zero.\<close>

definition if_truthy :: "int option \<Rightarrow> int option" where
  "if_truthy n = (case n of None \<Rightarrow> None | Some k \<Rightarrow> if k \<noteq> 0 then Some k else None)"

text \<open>\<^verbatim>\<open>acc[field] = v\<close> on an object given as its property list.\<close>

fun assign :: "string \<Rightarrow> 'a \<Rightarrow> (string \<times> 'a) list \<Rightarrow> (string \<times> 'a) list" where
  "assign k v [] = [(k, v)]"
| "assign k v ((k', v') # ps) = (if k' = k then (k, v) # ps else (k', v') # assign k v ps)"

subsection \<open>GET: list\<close>

definition select_stage ::
  "config \<Rightarrow> string \<Rightarrow> table \<Rightarrow> QueryParams
     \<Rightarrow> response + (string \<times> table_property) list option" where
  "select_stage config tableName tableSchema params =
     (case p_select params of
        None \<Rightarrow> Inr None
      | Some sel \<Rightarrow>
          if sel = [] then Inr None
          else
            (let validFields = validateFields config tableName sel in
             if validFields = [] then Inl (failure 400 ''No valid fields specified for selection'')
             else if ''*'' \<in> set validFields then Inr None
             else Inr (Some (foldl (\<lambda>acc field.
                                      case map_of (own_entries tableSchema) field of
                                        Some col \<Rightarrow> assign field col acc
                                      | None \<Rightarrow> acc) [] validFields))))"

definition where_stage :: "table \<Rightarrow> QueryParams \<Rightarrow> js_error + sql option" where
  "where_stage tableSchema params =
     (case p_where params of
        None \<Rightarrow> Inr None
      | Some w \<Rightarrow> if truthy w then buildWhereCondition w tableSchema else Inr None)"

fun order_loop ::
  "runtime \<Rightarrow> config \<Rightarrow> string \<Rightarrow> table \<Rightarrow> (string \<times> json) list \<Rightarrow> response + ordering list" where
  "order_loop rt config tableName tableSchema [] = Inr []"
| "order_loop rt config tableName tableSchema ((key, direction) # rest) =
     (if validateFields config tableName [key] = [] then
        Inl (failure 400 (''Invalid field '' @ [CHR 0x22] @ key @ [CHR 0x22] @ '' in orderBy''))
      else if direction \<noteq> JStr ''asc'' \<and> direction \<noteq> JStr ''desc'' then
        Inl (failure 400 (''Invalid direction '' @ [CHR 0x22] @ template_text rt direction @ [CHR 0x22]
                          @ '' for field '' @ [CHR 0x22] @ key @ [CHR 0x22] @ ''. Use ''
                          @ [CHR 0x22] @ ''asc'' @ [CHR 0x22] @ '' or '' @ [CHR 0x22] @ ''desc'' @ [CHR 0x22]))
      else
        (case order_loop rt config tableName tableSchema rest of
           Inl r \<Rightarrow> Inl r
         | Inr cs \<Rightarrow>
             Inr ((if direction = JStr ''desc'' then Desc (table_get tableSchema key)
                   else Asc (table_get tableSchema key)) # cs)))"

definition order_stage ::
  "runtime \<Rightarrow> config \<Rightarrow> string \<Rightarrow> table \<Rightarrow> QueryParams \<Rightarrow> early + ordering list" where
  "order_stage rt config tableName tableSchema params =
     (case p_orderBy params of
        None \<Rightarrow> Inr []
      | Some orderBy \<Rightarrow>
          if \<not> truthy orderBy then Inr []
          else if own_props orderBy \<noteq> [] \<and> \<not> hasOwnProperty_callable orderBy then
            Inl (Throw (TypeError ''params.orderBy.hasOwnProperty''))
          else
            (case order_loop rt config tableName tableSchema (own_props orderBy) of
               Inl r \<Rightarrow> Inl (Resolve r)
             | Inr orderConditions \<Rightarrow> Inr orderConditions))"

text \<open>The offset handed to the query builder.\<close>

definition pagination_offset :: "QueryParams \<Rightarrow> int option" where
  "pagination_offset params =
     (case if_truthy (p_offset params) of
        Some offset \<Rightarrow> Some offset
      | None \<Rightarrow>
          (case if_truthy (p_page params) of
             None \<Rightarrow> None
           | Some page \<Rightarrow>
               (case if_truthy (p_limit params) of
                  None \<Rightarrow> None
                | Some limit \<Rightarrow> Some ((page - 1) * limit))))"

text \<open>The query the list handler builds, statement by statement.\<close>

definition GET_query ::
  "runtime \<Rightarrow> config \<Rightarrow> string \<Rightarrow> table \<Rightarrow> QueryParams \<Rightarrow> early + select_query" where
  "GET_query rt config tableName tableSchema params =
     (case select_stage config tableName tableSchema params of
        Inl r \<Rightarrow> Inl (Resolve r)
      | Inr selectFields \<Rightarrow>
     (case where_stage tableSchema params of
        Inl e \<Rightarrow> Inl (Throw e)
      | Inr whereCondition \<Rightarrow>
     (case order_stage rt config tableName tableSchema params of
        Inl x \<Rightarrow> Inl x
      | Inr orderConditions \<Rightarrow>
          Inr \<lparr> q_fields = selectFields, q_from = tableSchema, q_where = whereCondition,
                q_orderBy = orderConditions, q_limit = if_truthy (p_limit params),
                q_offset = pagination_offset params \<rparr>)))"

definition list_response :: "QueryParams \<Rightarrow> json list \<Rightarrow> response" where
  "list_response params result =
     \<lparr> status = 200,
       body = \<lparr> success = True, data = Some (JArr result), error = None, message = None,
                meta = Some \<lparr> m_total = length result, m_page = if_truthy (p_page params),
                              m_limit = if_truthy (p_limit params) \<rparr> \<rparr> \<rparr>"

definition GET :: "runtime \<Rightarrow> config \<Rightarrow> request \<Rightarrow> outcome" where
  "GET rt config request =
     (case extractTableFromUrl request of
        None \<Rightarrow> (failure 400 ''Table name is required in URL path'', [])
      | Some tableName \<Rightarrow>
     (case map_of (schema config) tableName of
        None \<Rightarrow> (table_not_found tableName, [])
      | Some tableSchema \<Rightarrow>
          (let params = parseQueryParams rt request in
           case GET_query rt config tableName tableSchema params of
             Inl (Resolve r) \<Rightarrow> (r, [])
           | Inl (Throw e) \<Rightarrow> (failure_with 500 ''Internal server error'' (error_message e), [])
           | Inr q \<Rightarrow>
               (case db config (Select q) of
                  Inr result \<Rightarrow> (list_response params result, [Select q])
                | Inl msg \<Rightarrow> (failure_with 500 ''Database query failed'' msg, [Select q])))))"

subsection \<open>GET\_BY\_ID\<close>

text \<open>\<^verbatim>\<open>/^\d+$/.test(id)\<close>, and \<^verbatim>\<open>Number(id)\<close> on such a text: the number it
  writes in decimal (below \<open>2 ^ 53\<close>, where every integer is a double).\<close>

definition all_digits :: "string \<Rightarrow> bool" where
  "all_digits s = (s \<noteq> [] \<and> list_all is_digit s)"

definition id_value :: "string \<Rightarrow> json" where
  "id_value ident = (if all_digits ident then JNum (of_nat (decimal ident)) else JStr ident)"

definition by_id_query :: "table \<Rightarrow> table_property \<Rightarrow> json \<Rightarrow> select_query" where
  "by_id_query tableSchema idColumn idValue =
     \<lparr> q_fields = None, q_from = tableSchema, q_where = Some (Eq idColumn idValue),
       q_orderBy = [], q_limit = Some 1, q_offset = None \<rparr>"

definition GET_BY_ID :: "config \<Rightarrow> request \<Rightarrow> outcome" where
  "GET_BY_ID config request =
     (case path_parts request of
        tableName # ident # others \<Rightarrow>
          (case map_of (schema config) tableName of
             None \<Rightarrow> (table_not_found tableName, [])
           | Some tableSchema \<Rightarrow>
               (case table_get tableSchema ''id'' of
                  None \<Rightarrow> (failure 400 ''No id column in table'', [])
                | Some idColumn \<Rightarrow>
                    (let q = Select (by_id_query tableSchema idColumn (id_value ident)) in
                     case db config q of
                       Inr result \<Rightarrow>
                         (case result of
                            [] \<Rightarrow> (failure 404 ''Record not found'', [q])
                          | row # further \<Rightarrow>
                              (\<lparr> status = 200,
                                 body = \<lparr> success = True, data = Some row, error = None,
                                          message = None, meta = None \<rparr> \<rparr>, [q]))
                     | Inl msg \<Rightarrow> (failure_with 500 ''Database query failed'' msg, [q]))))
      | _ \<Rightarrow> (failure 400 ''Table name and id required in URL path'', []))"

subsection \<open>POST\<close>

text \<open>Running a mutation: \<^verbatim>\<open>query.then(result => ...).catch(error => ...)\<close>.\<close>

definition execute_mutation :: "config \<Rightarrow> query \<Rightarrow> string \<Rightarrow> string \<Rightarrow> outcome" where
  "execute_mutation config q verb failed =
     (case db config q of
        Inr result \<Rightarrow> (mutated result verb, [q])
      | Inl msg \<Rightarrow> (failure_with 500 failed msg, [q]))"

definition POST :: "config \<Rightarrow> request \<Rightarrow> outcome" where
  "POST config request =
     (case extractTableFromUrl request of
        None \<Rightarrow> (failure 400 ''Table name is required in URL path'', [])
      | Some tableName \<Rightarrow>
     (case map_of (schema config) tableName of
        None \<Rightarrow> (table_not_found tableName, [])
      | Some tableSchema \<Rightarrow>
          (case json_body request of
             None \<Rightarrow> (failure 400 ''Invalid JSON in request body'', [])
           | Some d \<Rightarrow>
               if \<not> truthy d then (failure 400 ''Request body is required'', [])
               else
                 execute_mutation config (Insert tableSchema d)
                   ''created'' ''Database insert failed'')))"

subsection \<open>PUT, PATCH and DELETE\<close>

text \<open>The negation of the guard
  \<^verbatim>\<open>!w || typeof w !== 'object' || Object.keys(w).length !== 1 || !('id' in w)\<close>
  on a parsed \<^verbatim>\<open>where\<close>.\<close>

definition by_id_only :: "json \<Rightarrow> bool" where
  "by_id_only w =
     (truthy w \<and> typeof_object w \<and> length (Object_keys w) = 1 \<and> has_key ''id'' w)"

definition PUT :: "runtime \<Rightarrow> config \<Rightarrow> request \<Rightarrow> outcome" where
  \<open>PUT rt config request =
     (case extractTableFromUrl request of
        None \<Rightarrow> (failure 400 ''Table name is required in URL path'', [])
      | Some tableName \<Rightarrow>
     (case map_of (schema config) tableName of
        None \<Rightarrow> (table_not_found tableName, [])
      | Some tableSchema \<Rightarrow>
     (case p_where (parseQueryParams rt request) of
        None \<Rightarrow> (failure 400 ''Update is only allowed by id. Use ?where={"id":1}'', [])
      | Some w \<Rightarrow>
          if \<not> by_id_only w then
            (failure 400 ''Update is only allowed by id. Use ?where={"id":1}'', [])
          else
            (case json_body request of
               None \<Rightarrow> (failure 400 ''Invalid JSON in request body'', [])
             | Some d \<Rightarrow>
                 if \<not> (truthy d \<and> typeof_object d) then
                   (failure 400 ''Request body with update data is required'', [])
                 else
                   (case buildWhereCondition w tableSchema of
                      Inl e \<Rightarrow> (failure 400 ''Invalid JSON in request body'', [])
                    | Inr None \<Rightarrow> (failure 400 ''Invalid WHERE condition'', [])
                    | Inr (Some whereCondition) \<Rightarrow>
                        execute_mutation config (Update tableSchema d whereCondition)
                          ''updated'' ''Database update failed'')))))\<close>

text \<open>\<^verbatim>\<open>PATCH\<close> returns \<^verbatim>\<open>module.exports.createHandler(config).PUT(request)\<close>,
  evaluated outside any \<^verbatim>\<open>try\<close> and outside the promise: where \<^verbatim>\<open>module\<close> is
  not bound the expression throws; otherwise the exported function makes a handler object
  from the configuration and its \<^verbatim>\<open>PUT\<close> answers the request.\<close>

definition PATCH :: "runtime \<Rightarrow> config \<Rightarrow> request \<Rightarrow> js_error + outcome" where
  "PATCH rt config request =
     (case module_exports_createHandler rt of
        None \<Rightarrow> Inl (ReferenceError ''module'')
      | Some exported \<Rightarrow> Inr (h_PUT (exported config) request))"

definition DELETE :: "runtime \<Rightarrow> config \<Rightarrow> request \<Rightarrow> outcome" where
  \<open>DELETE rt config request =
     (case extractTableFromUrl request of
        None \<Rightarrow> (failure 400 ''Table name is required in URL path'', [])
      | Some tableName \<Rightarrow>
     (case map_of (schema config) tableName of
        None \<Rightarrow> (table_not_found tableName, [])
      | Some tableSchema \<Rightarrow>
     (case p_where (parseQueryParams rt request) of
        None \<Rightarrow> (failure 400 ''Delete is only allowed by id. Use ?where={"id":1}'', [])
      | Some w \<Rightarrow>
          if \<not> by_id_only w then
            (failure 400 ''Delete is only allowed by id. Use ?where={"id":1}'', [])
          else
            (case buildWhereCondition w tableSchema of
               Inl e \<Rightarrow> (failure_with 500 ''Internal server error'' (error_message e), [])
             | Inr None \<Rightarrow> (failure 400 ''Invalid WHERE condition'', [])
             | Inr (Some whereCondition) \<Rightarrow>
                 execute_mutation config (Delete tableSchema whereCondition)
                   ''deleted'' ''Database delete failed''))))\<close>

text \<open>The handler object of a configuration.\<close>

definition createHandler :: "runtime \<Rightarrow> config \<Rightarrow> handlers" where
  "createHandler rt config =
     \<lparr> h_GET = GET rt config, h_GET_BY_ID = GET_BY_ID config, h_POST = POST config,
       h_PUT = PUT rt config, h_PATCH = PATCH rt config, h_DELETE = DELETE rt config \<rparr>"

text \<open>The default strategies of \<^verbatim>\<open>src/handlers/maps/handler-maps.ts\<close> pass
  the raw request of the routing context to one of the functions of the handler object;
  an exception of the function rejects the promise of \<^verbatim>\<open>handle\<close>.\<close>

record routing_context =
  raw :: request

datatype HandlerStrategy = DefaultHandler "request \<Rightarrow> js_error + outcome"

fun handle :: "HandlerStrategy \<Rightarrow> routing_context \<Rightarrow> js_error + outcome" where
  "handle (DefaultHandler fn) c = fn (raw c)"

definition defaultPutHandler :: "handlers \<Rightarrow> HandlerStrategy" where
  "defaultPutHandler handler = DefaultHandler (\<lambda>request. Inr (h_PUT handler request))"

definition defaultPatchHandler :: "handlers \<Rightarrow> HandlerStrategy" where
  "defaultPatchHandler handler = DefaultHandler (h_PATCH handler)"

section \<open>The description generator: component schemas\<close>

text \<open>The first loop of \<^verbatim>\<open>generateOpenAPISpec\<close>: for every table that is not
  excluded, an object schema under the name of the table and the same properties and
  \<^verbatim>\<open>required\<close> list under the name followed by \<^verbatim>\<open>Input\<close>.\<close>

record property =
  p_type :: string
  p_format :: "string option"
  p_description :: string

record object_schema =
  properties :: "(string \<times> property) list"
  required :: "string list"
  description :: string

datatype component = ApiResponse | ErrorResponse | TableSchema object_schema

text \<open>\<^verbatim>\<open>s.includes(t)\<close>.\<close>

fun starts_with :: "string \<Rightarrow> string \<Rightarrow> bool" where
  "starts_with s [] = True"
| "starts_with [] (c # t) = False"
| "starts_with (d # s) (c # t) = (d = c \<and> starts_with s t)"

fun str_includes :: "string \<Rightarrow> string \<Rightarrow> bool" where
  "str_includes [] t = (t = [])"
| "str_includes (d # s) t = (starts_with (d # s) t \<or> str_includes s t)"

text \<open>\<^verbatim>\<open>fieldDef.dataType || fieldDef.columnType || fieldDef.type || ''\<close>.\<close>

definition data_type_of :: "column \<Rightarrow> string" where
  "data_type_of fieldDef =
     (if dataType fieldDef \<noteq> [] then dataType fieldDef
      else if columnType fieldDef \<noteq> [] then columnType fieldDef
      else col_type fieldDef)"

definition property_of :: "string \<Rightarrow> string \<Rightarrow> column \<Rightarrow> property" where
  "property_of tableName fieldName fieldDef =
     (let dt = data_type_of fieldDef;
          descr = (if col_description fieldDef \<noteq> [] then col_description fieldDef
                   else fieldName @ '' field of '' @ tableName @ '' table'')
      in if str_includes dt ''int'' \<or> dt = ''number'' then
           \<lparr> p_type = ''number'', p_format = None, p_description = descr \<rparr>
         else if dt = ''boolean'' then
           \<lparr> p_type = ''boolean'', p_format = None, p_description = descr \<rparr>
         else if dt = ''date'' \<or> dt = ''timestamp'' then
           \<lparr> p_type = ''string'', p_format = Some ''date-time'', p_description = descr \<rparr>
         else
           \<lparr> p_type = ''string'', p_format = None, p_description = descr \<rparr>)"

text \<open>The test before \<^verbatim>\<open>required.push(fieldName)\<close>:
  \<^verbatim>\<open>fieldDef.notNull || (typeof fieldDef.isNullable === 'function' && !fieldDef.isNullable())\<close>.\<close>

text \<open>What the generator reads from an entry of a table object: the metadata of a
  column; on anything else each of these properties is \<^verbatim>\<open>undefined\<close>.\<close>

fun fieldDef_of :: "table_property \<Rightarrow> column" where
  "fieldDef_of (Column col) = col"
| "fieldDef_of (Other n) =
     \<lparr> name = n, dataType = [], columnType = [], col_type = [], col_description = [],
       notNull = False, isNullable = None, hasDefault = False, defaultNow = False,
       defaultRandom = False \<rparr>"

definition is_required :: "column \<Rightarrow> bool" where
  "is_required fieldDef =
     (notNull fieldDef \<or> (case isNullable fieldDef of None \<Rightarrow> False | Some nullable \<Rightarrow> \<not> nullable))"

text \<open>One turn of the loop over the entries of a table, on the pair of
  \<^verbatim>\<open>properties\<close> and \<^verbatim>\<open>required\<close>.\<close>

definition field_step ::
  "string \<Rightarrow> (string \<times> property) list \<times> string list \<Rightarrow> string \<times> table_property
     \<Rightarrow> (string \<times> property) list \<times> string list" where
  "field_step tableName acc entry =
     (let fieldName = fst entry; fieldDef = fieldDef_of (snd entry) in
      if fieldName = ''enableRLS'' then acc
      else (assign fieldName (property_of tableName fieldName fieldDef) (fst acc),
            if is_required fieldDef then snd acc @ [fieldName] else snd acc))"

definition output_schema :: "string \<Rightarrow> table \<Rightarrow> object_schema" where
  "output_schema tableName tableSchema =
     (let acc = foldl (field_step tableName) ([], []) (own_entries tableSchema) in
      \<lparr> properties = fst acc, required = snd acc,
        description = tableName @ '' table schema'' \<rparr>)"

definition input_schema :: "string \<Rightarrow> table \<Rightarrow> object_schema" where
  "input_schema tableName tableSchema =
     (let acc = foldl (field_step tableName) ([], []) (own_entries tableSchema) in
      \<lparr> properties = fst acc, required = snd acc,
        description = ''Input schema for creating/updating '' @ tableName @ '' records'' \<rparr>)"

definition schemas_step ::
  "string list \<Rightarrow> (string \<times> component) list \<Rightarrow> string \<times> table \<Rightarrow> (string \<times> component) list" where
  "schemas_step excludedTables schemas entry =
     (let tableName = fst entry; tableSchema = snd entry in
      if tableName \<in> set excludedTables then schemas
      else assign (tableName @ ''Input'') (TableSchema (input_schema tableName tableSchema))
             (assign tableName (TableSchema (output_schema tableName tableSchema)) schemas))"

definition component_schemas :: "schema \<Rightarrow> string list \<Rightarrow> (string \<times> component) list" where
  "component_schemas sch excludedTables =
     foldl (schemas_step excludedTables)
       [(''ApiResponse'', ApiResponse), (''ErrorResponse'', ErrorResponse)] sch"

section \<open>The example schema and runtime\<close>

text \<open>The table \<^verbatim>\<open>posts\<close> of the repository's schema file, as the column objects of
  the query builder describe it: a primary key with a random default, three columns that
  are only \<^verbatim>\<open>notNull\<close>, two timestamps that are \<^verbatim>\<open>notNull\<close> with the default
  \<^verbatim>\<open>now()\<close>, and the function \<^verbatim>\<open>enableRLS\<close> the builder adds to a table.\<close>

definition plain_column :: "string \<Rightarrow> string \<Rightarrow> string \<Rightarrow> bool \<Rightarrow> column" where
  "plain_column n dt ct dflt =
     \<lparr> name = n, dataType = dt, columnType = ct, col_type = [], col_description = [],
       notNull = True, isNullable = None, hasDefault = dflt, defaultNow = False,
       defaultRandom = False \<rparr>"

definition posts_id :: column where
  "posts_id = plain_column ''id'' ''string'' ''PgUUID'' True"

definition posts_title :: column where
  "posts_title = plain_column ''title'' ''string'' ''PgVarchar'' False"

text \<open>The names every object inherits from \<^verbatim>\<open>Object.prototype\<close>.\<close>

definition Object_prototype :: "string list" where
  "Object_prototype =
     [''constructor'', ''hasOwnProperty'', ''isPrototypeOf'', ''propertyIsEnumerable'',
      ''toLocaleString'', ''toString'', ''valueOf'', ''__proto__'', ''__defineGetter__'',
      ''__defineSetter__'', ''__lookupGetter__'', ''__lookupSetter__'']"

definition posts :: table where
  "posts =
     \<lparr> own_entries =
         [(''id'', Column posts_id),
          (''userId'', Column (plain_column ''userId'' ''string'' ''PgUUID'' False)),
          (''title'', Column posts_title),
          (''content'', Column (plain_column ''content'' ''string'' ''PgVarchar'' False)),
          (''createdAt'', Column (plain_column ''createdAt'' ''date'' ''PgTimestamp'' True)),
          (''updatedAt'', Column (plain_column ''updatedAt'' ''date'' ''PgTimestamp'' True)),
          (''enableRLS'', Other ''enableRLS'')],
       inherited = Object_prototype \<rparr>"

text \<open>Three stored rows and an executor over them that fulfils every query: a select
  applies offset and limit, a mutation returns the first row.\<close>

definition sample_rows :: "json list" where
  "sample_rows =
     [JObj [(''id'', JStr ''a''), (''title'', JStr ''Intro'')],
      JObj [(''id'', JStr ''b''), (''title'', JStr ''Second'')],
      JObj [(''id'', JStr ''c''), (''title'', JStr ''Third'')]]"

fun sample_db :: database where
  "sample_db (Select q) =
     Inr (let skipped = (case q_offset q of None \<Rightarrow> sample_rows | Some k \<Rightarrow> drop (nat k) sample_rows)
          in case q_limit q of None \<Rightarrow> skipped | Some l \<Rightarrow> take (nat l) skipped)"
| "sample_db (Insert t d) = Inr [hd sample_rows]"
| "sample_db (Update t d w) = Inr [hd sample_rows]"
| "sample_db (Delete t w) = Inr [hd sample_rows]"

definition sample_config :: config where
  "sample_config = \<lparr> db = sample_db, schema = [(''posts'', posts)] \<rparr>"

text \<open>A parser for the examples: it has the values of \<^verbatim>\<open>JSON.parse\<close> on the JSON
  texts the examples use and rejects every other text; of those the examples use only
  \<^verbatim>\<open>{"title":\<close>, which \<^verbatim>\<open>JSON.parse\<close> rejects too.\<close>

definition sample_parse :: "string \<Rightarrow> json option" where
  \<open>sample_parse text =
     (if text = ''{"id":1}'' then Some (JObj [(''id'', JNum 1)])
      else if text = ''{"id":1,"name":"x"}'' then Some (JObj [(''id'', JNum 1), (''name'', JStr ''x'')])
      else if text = ''{"title":{"like":"%Intro%"}}'' then
        Some (JObj [(''title'', JObj [(''like'', JStr ''%Intro%'')])])
      else if text = ''{"*":"asc"}'' then Some (JObj [(''*'', JStr ''asc'')])
      else if text = ''{"title":"desc"}'' then Some (JObj [(''title'', JStr ''desc'')])
      else if text = ''{"title":"DESC"}'' then Some (JObj [(''title'', JStr ''DESC'')])
      else if text = ''{"bogusField":"asc"}'' then Some (JObj [(''bogusField'', JStr ''asc'')])
      else if text = ''{"hasOwnProperty":1}'' then Some (JObj [(''hasOwnProperty'', JNum 1)])
      else if text = ''{"constructor":1}'' then Some (JObj [(''constructor'', JNum 1)])
      else if text = ''{"toString":"asc"}'' then Some (JObj [(''toString'', JStr ''asc'')])
      else None)\<close>

text \<open>The adapter loaded as the ES module it is written as.\<close>

definition sample_runtime :: runtime where
  "sample_runtime =
     \<lparr> JSON_parse = sample_parse, to_text = (\<lambda>v. ''[object Object]''),
       module_exports_createHandler = None \<rparr>"

text \<open>A runtime in which \<^verbatim>\<open>module.exports.createHandler\<close> is bound, as in a
  CommonJS build, to a function whose handler objects are those of \<^verbatim>\<open>createHandler\<close>.\<close>

definition commonjs :: "runtime \<Rightarrow> runtime" where
  "commonjs rt =
     rt\<lparr> module_exports_createHandler :=
           Some (\<lambda>config.
             \<lparr> h_GET = GET rt config, h_GET_BY_ID = GET_BY_ID config, h_POST = POST config,
               h_PUT = PUT rt config, h_PATCH = (\<lambda>request. Inr (PUT rt config request)),
               h_DELETE = DELETE rt config \<rparr>) \<rparr>"

text \<open>A second schema: a table \<^verbatim>\<open>postsInput\<close> with one nullable column, exported
  before the table \<^verbatim>\<open>posts\<close>.\<close>

definition postsInput :: table where
  "postsInput =
     \<lparr> own_entries =
         [(''note'', Column ((plain_column ''note'' ''string'' ''PgVarchar'' False)\<lparr> notNull := False \<rparr>)),
          (''enableRLS'', Other ''enableRLS'')],
       inherited = Object_prototype \<rparr>"

definition colliding_schema :: schema where
  "colliding_schema = [(''postsInput'', postsInput), (''posts'', posts)]"

text \<open>An executor over an empty table.\<close>

definition empty_db :: database where
  "empty_db q = Inr []"

definition empty_config :: config where
  "empty_config = \<lparr> db = empty_db, schema = [(''posts'', posts)] \<rparr>"

text \<open>Requests on the table \<^verbatim>\<open>posts\<close>: a list or mutation request with search
  parameters and a body, and a request for one record.\<close>

definition posts_request :: "(string \<times> string) list \<Rightarrow> json option \<Rightarrow> request" where
  "posts_request ps b = \<lparr> pathname = ''/api/posts'', searchParams = ps, json_body = b \<rparr>"

definition post_by_id :: "string \<Rightarrow> request" where
  "post_by_id ident = \<lparr> pathname = ''/api/posts/'' @ ident, searchParams = [], json_body = None \<rparr>"

text \<open>A request without one of its search parameters.\<close>

definition without :: "string \<Rightarrow> request \<Rightarrow> request" where
  "without key request =
     request\<lparr> searchParams := filter (\<lambda>kv. fst kv \<noteq> key) (searchParams request) \<rparr>"

definition list_posts :: "(string \<times> string) list \<Rightarrow> request" where
  "list_posts ps = \<lparr> pathname = ''/api/posts'', searchParams = ps, json_body = None \<rparr>"

text \<open>The contract of the executor about \<^verbatim>\<open>limit\<close>: a select with a limit returns at
  most that many rows.\<close>

definition honours_limit :: "database \<Rightarrow> bool" where
  "honours_limit d =
     (\<forall>q result l. d (Select q) = Inr result \<and> q_limit q = Some l \<longrightarrow> length result \<le> nat l)"

section \<open>Properties of the list handler\<close>

lemma validateTable_iff:
  "validateTable config tableName \<longleftrightarrow> (\<exists>tableSchema. map_of (schema config) tableName = Some tableSchema)"
  by (simp add: validateTable_def)

lemma order_loop_rejects:
  "order_loop rt config tableName tableSchema entries = Inl r
   \<Longrightarrow> status r = 400 \<and> \<not> success (body r)"
  by (induction entries) (auto simp: failure_def split: if_splits sum.splits)

lemma GET_query_rejects:
  assumes "GET_query rt config tableName tableSchema params = Inl (Resolve r)"
  shows "status r = 400 \<and> \<not> success (body r)"
proof -
  have sel: "status r = 400 \<and> \<not> success (body r)"
    if "select_stage config tableName tableSchema params = Inl r"
    using that by (auto simp: select_stage_def Let_def failure_def split: option.splits if_splits)
  have ord: "status r = 400 \<and> \<not> success (body r)"
    if "order_stage rt config tableName tableSchema params = Inl (Resolve r)"
    using that
    by (auto simp: order_stage_def split: option.splits if_splits sum.splits
        dest: order_loop_rejects)
  from assms sel ord show ?thesis
    by (auto simp: GET_query_def split: sum.splits)
qed

lemma GET_success_cases:
  assumes "GET rt config request = (resp, calls)" and "success (body resp)"
  obtains tableName tableSchema q result where
    "extractTableFromUrl request = Some tableName"
    "map_of (schema config) tableName = Some tableSchema"
    "GET_query rt config tableName tableSchema (parseQueryParams rt request) = Inr q"
    "db config (Select q) = Inr result"
    "resp = list_response (parseQueryParams rt request) result"
    "calls = [Select q]"
  using assms
  by (auto simp: GET_def Let_def failure_def failure_with_def table_not_found_def
      split: option.splits sum.splits early.splits dest: GET_query_rejects)

lemma p_limit_positive: "p_limit (parseQueryParams rt request) = Some l \<Longrightarrow> 0 < l"
  by (auto simp: parseQueryParams_def split: option.splits if_splits)

lemma GET_query_limit:
  "GET_query rt config tableName tableSchema params = Inr q
   \<Longrightarrow> q_limit q = if_truthy (p_limit params)"
  by (auto simp: GET_query_def split: sum.splits)

lemma sample_db_honours_limit: "honours_limit sample_db"
  by (simp add: honours_limit_def Let_def split: option.splits)

text \<open>
  Claim C9.  When a list request is executed successfully, the executor was called once,
  \<^verbatim>\<open>data\<close> is the sequence of rows it returned and \<^verbatim>\<open>meta.total\<close> is the length
  of that sequence: the number of rows returned, not a count of all matching rows.  With an
  executor that honours \<^verbatim>\<open>limit\<close>, \<^verbatim>\<open>meta.total\<close> is at most the limit of the
  request.
\<close>

theorem GET_total_is_returned_count:
  assumes "GET rt config request = (resp, calls)" and "success (body resp)"
  shows "\<exists>q result m.
           calls = [Select q] \<and> db config (Select q) = Inr result
           \<and> data (body resp) = Some (JArr result)
           \<and> meta (body resp) = Some m \<and> m_total m = length result
           \<and> (\<forall>l. honours_limit (db config) \<and> p_limit (parseQueryParams rt request) = Some l
                  \<longrightarrow> m_total m \<le> nat l)"
proof -
  from assms obtain tableName tableSchema q result where
    q: "GET_query rt config tableName tableSchema (parseQueryParams rt request) = Inr q"
    and run: "db config (Select q) = Inr result"
    and resp: "resp = list_response (parseQueryParams rt request) result"
    and calls: "calls = [Select q]"
    by (rule GET_success_cases)
  let ?m = "\<lparr> m_total = length result, m_page = if_truthy (p_page (parseQueryParams rt request)),
               m_limit = if_truthy (p_limit (parseQueryParams rt request)) \<rparr>"
  have bound: "length result \<le> nat l"
    if "honours_limit (db config)" and "p_limit (parseQueryParams rt request) = Some l" for l
  proof -
    from that(2) have "0 < l" by (rule p_limit_positive)
    with that(2) GET_query_limit [OF q] have "q_limit q = Some l"
      by (simp add: if_truthy_def)
    with that(1) run show ?thesis
      unfolding honours_limit_def by blast
  qed
  have "calls = [Select q] \<and> db config (Select q) = Inr result
        \<and> data (body resp) = Some (JArr result)
        \<and> meta (body resp) = Some ?m \<and> m_total ?m = length result
        \<and> (\<forall>l. honours_limit (db config) \<and> p_limit (parseQueryParams rt request) = Some l
               \<longrightarrow> m_total ?m \<le> nat l)"
    using calls run resp bound by (simp add: list_response_def)
  then show ?thesis by blast
qed

text \<open>The request \<^verbatim>\<open>GET /api/posts?limit=2\<close> on the three stored rows: two rows come
  back and \<^verbatim>\<open>meta.total\<close> is 2.\<close>

theorem GET_total_is_returned_count_witness:
  "honours_limit (db sample_config)
   \<and> success (body (fst (GET sample_runtime sample_config (list_posts [(''limit'', ''2'')]))))
   \<and> p_limit (parseQueryParams sample_runtime (list_posts [(''limit'', ''2'')])) = Some 2
   \<and> (\<exists>q result m.
         snd (GET sample_runtime sample_config (list_posts [(''limit'', ''2'')])) = [Select q]
         \<and> db sample_config (Select q) = Inr result
         \<and> data (body (fst (GET sample_runtime sample_config (list_posts [(''limit'', ''2'')]))))
           = Some (JArr result)
         \<and> meta (body (fst (GET sample_runtime sample_config (list_posts [(''limit'', ''2'')]))))
           = Some m
         \<and> m_total m = length result \<and> m_total m \<le> 2)"
proof -
  let ?o = "GET sample_runtime sample_config (list_posts [(''limit'', ''2'')])"
  have ok: "success (body (fst ?o))"
    by code_simp
  have lim: "p_limit (parseQueryParams sample_runtime (list_posts [(''limit'', ''2'')])) = Some 2"
    by code_simp
  have hon: "honours_limit (db sample_config)"
    by (simp add: sample_config_def sample_db_honours_limit)
  from GET_total_is_returned_count [of sample_runtime sample_config
      "list_posts [(''limit'', ''2'')]" "fst ?o" "snd ?o"] ok
  obtain q result m where
    "snd ?o = [Select q]" "db sample_config (Select q) = Inr result"
    "data (body (fst ?o)) = Some (JArr result)" "meta (body (fst ?o)) = Some m"
    "m_total m = length result"
    "\<forall>l. honours_limit (db sample_config)
           \<and> p_limit (parseQueryParams sample_runtime (list_posts [(''limit'', ''2'')])) = Some l
         \<longrightarrow> m_total m \<le> nat l"
    by auto
  moreover from this(6) hon lim have "m_total m \<le> 2"
    by fastforce
  ultimately show ?thesis
    using ok lim hon by blast
qed

section \<open>PATCH\<close>

text \<open>The handlers read the runtime through \<^verbatim>\<open>JSON.parse\<close> and the text conversion
  only, \<^verbatim>\<open>PATCH\<close> apart.\<close>

lemma template_text_same_runtime:
  "to_text rt' = to_text rt \<Longrightarrow> template_text rt' v = template_text rt v"
  by (cases v) (simp_all add: template_text_def)

lemma order_loop_same_runtime:
  assumes "to_text rt' = to_text rt"
  shows "order_loop rt' config tableName tableSchema entries
           = order_loop rt config tableName tableSchema entries"
  by (induction entries) (auto simp: template_text_same_runtime [OF assms])

lemma GET_same_runtime:
  assumes "JSON_parse rt' = JSON_parse rt" and "to_text rt' = to_text rt"
  shows "GET rt' config = GET rt config"
proof -
  have p: "parseQueryParams rt' request = parseQueryParams rt request" for request
    unfolding parseQueryParams_def assms(1) by (rule refl)
  have q: "GET_query rt' config tableName tableSchema params
             = GET_query rt config tableName tableSchema params" for tableName tableSchema params
    unfolding GET_query_def order_stage_def order_loop_same_runtime [OF assms(2)]
    by (rule refl)
  show ?thesis
  proof (rule ext)
    fix request
    show "GET rt' config request = GET rt config request"
      unfolding GET_def p q by (rule refl)
  qed
qed

lemma PUT_same_runtime:
  assumes "JSON_parse rt' = JSON_parse rt"
  shows "PUT rt' config = PUT rt config"
proof -
  have p: "parseQueryParams rt' request = parseQueryParams rt request" for request
    unfolding parseQueryParams_def assms by (rule refl)
  show ?thesis
  proof (rule ext)
    fix request
    show "PUT rt' config request = PUT rt config request"
      unfolding PUT_def p by (rule refl)
  qed
qed

lemma DELETE_same_runtime:
  assumes "JSON_parse rt' = JSON_parse rt"
  shows "DELETE rt' config = DELETE rt config"
proof -
  have p: "parseQueryParams rt' request = parseQueryParams rt request" for request
    unfolding parseQueryParams_def assms by (rule refl)
  show ?thesis
  proof (rule ext)
    fix request
    show "DELETE rt' config request = DELETE rt config request"
      unfolding DELETE_def p by (rule refl)
  qed
qed

text \<open>Where \<^verbatim>\<open>module.exports.createHandler\<close> is bound to a function whose handler
  objects have this \<^verbatim>\<open>PUT\<close>, \<^verbatim>\<open>PATCH\<close> answers as \<^verbatim>\<open>PUT\<close> does; the runtime
  \<open>commonjs rt\<close> is one in which the name is bound to \<^verbatim>\<open>createHandler\<close> itself.\<close>

lemma PATCH_with_module_exports:
  assumes "module_exports_createHandler rt = Some exported"
    and "h_PUT (exported config) = PUT rt config"
  shows "PATCH rt config request = Inr (PUT rt config request)"
  using assms by (simp add: PATCH_def)

lemma commonjs_exports_createHandler:
  "module_exports_createHandler (commonjs rt) = Some (createHandler (commonjs rt))"
proof -
  have j: "JSON_parse (commonjs rt) = JSON_parse rt" and x: "to_text (commonjs rt) = to_text rt"
    by (simp_all add: commonjs_def)
  have "createHandler (commonjs rt) config
          = \<lparr> h_GET = GET rt config, h_GET_BY_ID = GET_BY_ID config, h_POST = POST config,
              h_PUT = PUT rt config, h_PATCH = (\<lambda>request. Inr (PUT rt config request)),
              h_DELETE = DELETE rt config \<rparr>" for config
    unfolding createHandler_def GET_same_runtime [OF j x] PUT_same_runtime [OF j]
      DELETE_same_runtime [OF j]
    by (simp add: PATCH_def commonjs_def fun_eq_iff)
  then show ?thesis
    by (simp add: commonjs_def fun_eq_iff)
qed

lemma PATCH_commonjs:
  "h_PATCH (createHandler (commonjs rt) config) request
     = Inr (h_PUT (createHandler (commonjs rt) config) request)"
  by (simp add: createHandler_def PATCH_def commonjs_exports_createHandler)

text \<open>
  Claim C3.  The update of the record with id 1, sent as \<^verbatim>\<open>PUT\<close> and as
  \<^verbatim>\<open>PATCH\<close> to the adapter loaded as an ES module: \<^verbatim>\<open>PUT\<close> runs the update and
  answers with the updated row; \<^verbatim>\<open>PATCH\<close> throws a \<^verbatim>\<open>ReferenceError\<close>, since
  \<^verbatim>\<open>module\<close> is not bound, and no query reaches the executor.  The same holds of the
  default strategies the router falls back to.
\<close>

theorem PATCH_throws_where_PUT_answers:
  \<open>module_exports_createHandler sample_runtime = None
   \<and> h_PUT (createHandler sample_runtime sample_config)
         (posts_request [(''where'', ''{"id":1}'')] (Some (JObj [(''title'', JStr ''x'')])))
       = (mutated [hd sample_rows] ''updated'',
          [Update posts (JObj [(''title'', JStr ''x'')]) (And [Eq (Column posts_id) (JNum 1)])])
   \<and> h_PATCH (createHandler sample_runtime sample_config)
         (posts_request [(''where'', ''{"id":1}'')] (Some (JObj [(''title'', JStr ''x'')])))
       = Inl (ReferenceError ''module'')
   \<and> handle (defaultPutHandler (createHandler sample_runtime sample_config))
         \<lparr> raw = posts_request [(''where'', ''{"id":1}'')] (Some (JObj [(''title'', JStr ''x'')])) \<rparr>
       = Inr (mutated [hd sample_rows] ''updated'',
              [Update posts (JObj [(''title'', JStr ''x'')]) (And [Eq (Column posts_id) (JNum 1)])])
   \<and> handle (defaultPatchHandler (createHandler sample_runtime sample_config))
         \<lparr> raw = posts_request [(''where'', ''{"id":1}'')] (Some (JObj [(''title'', JStr ''x'')])) \<rparr>
       = Inl (ReferenceError ''module'')\<close>
  by code_simp

section \<open>Get by id\<close>

lemma failure_facts:
  "status (failure code err) = code" "\<not> success (body (failure code err))"
  "data (body (failure code err)) = None" "error (body (failure code err)) = Some err"
  by (simp_all add: failure_def)

text \<open>
  Claim C7.  A request \<^verbatim>\<open>/{table}/{id}\<close> on a known table with an \<^verbatim>\<open>id\<close> column runs
  one select on that table: equality on the \<^verbatim>\<open>id\<close> column, limit 1.  The value compared
  is the number written by the path segment when the segment consists of decimal digits
  (\<^verbatim>\<open>"42"\<close> gives 42; stated for numbers below \<open>2 ^ 53\<close>), and the segment itself
  as a string otherwise (\<^verbatim>\<open>"abc"\<close>).  No
  row gives \<^verbatim>\<open>success: false\<close> with status 404; otherwise \<^verbatim>\<open>data\<close> is the first row
  itself, not an array.
\<close>

theorem GET_BY_ID_lookup:
  assumes "path_parts request = tableName # ident # others"
    and "map_of (schema config) tableName = Some tableSchema"
    and "table_get tableSchema ''id'' = Some idColumn"
  shows "(\<exists>idValue.
            snd (GET_BY_ID config request) = [Select (by_id_query tableSchema idColumn idValue)]
            \<and> q_where (by_id_query tableSchema idColumn idValue) = Some (Eq idColumn idValue)
            \<and> (all_digits ident \<and> decimal ident < 2 ^ 53
                 \<longrightarrow> idValue = JNum (of_nat (decimal ident)))
            \<and> (\<not> all_digits ident \<longrightarrow> idValue = JStr ident)
            \<and> (db config (Select (by_id_query tableSchema idColumn idValue)) = Inr []
                 \<longrightarrow> fst (GET_BY_ID config request) = failure 404 ''Record not found''
                     \<and> status (fst (GET_BY_ID config request)) = 404
                     \<and> \<not> success (body (fst (GET_BY_ID config request))))
            \<and> (\<forall>row further.
                  db config (Select (by_id_query tableSchema idColumn idValue)) = Inr (row # further)
                  \<longrightarrow> status (fst (GET_BY_ID config request)) = 200
                      \<and> success (body (fst (GET_BY_ID config request)))
                      \<and> data (body (fst (GET_BY_ID config request))) = Some row))"
proof -
  let ?q = "Select (by_id_query tableSchema idColumn (id_value ident))"
  have calls: "snd (GET_BY_ID config request) = [?q]"
    using assms by (simp add: GET_BY_ID_def Let_def split: sum.splits list.splits)
  have none: "fst (GET_BY_ID config request) = failure 404 ''Record not found''"
    if "db config ?q = Inr []"
    using assms that by (simp add: GET_BY_ID_def Let_def)
  have some: "status (fst (GET_BY_ID config request)) = 200
      \<and> success (body (fst (GET_BY_ID config request)))
      \<and> data (body (fst (GET_BY_ID config request))) = Some row"
    if "db config ?q = Inr (row # further)" for row further
    using assms that by (simp add: GET_BY_ID_def Let_def)
  show ?thesis
    apply (rule exI [of _ "id_value ident"])
    using calls none some
    by (auto simp: by_id_query_def id_value_def failure_facts)
qed

lemma decimal_42: "decimal ''42'' = 42"
  by (simp add: decimal_def digit_val_def)

text \<open>The requests \<^verbatim>\<open>/api/posts/42\<close> and \<^verbatim>\<open>/api/posts/abc\<close>, on the stored rows and
  on an empty table.\<close>

theorem GET_BY_ID_lookup_witness:
  "path_parts (post_by_id ''42'') = [''posts'', ''42'']
   \<and> path_parts (post_by_id ''abc'') = [''posts'', ''abc'']
   \<and> snd (GET_BY_ID sample_config (post_by_id ''42''))
       = [Select (by_id_query posts (Column posts_id) (JNum 42))]
   \<and> snd (GET_BY_ID sample_config (post_by_id ''abc''))
       = [Select (by_id_query posts (Column posts_id) (JStr ''abc''))]
   \<and> data (body (fst (GET_BY_ID sample_config (post_by_id ''42'')))) = Some (hd sample_rows)
   \<and> status (fst (GET_BY_ID empty_config (post_by_id ''42''))) = 404
   \<and> \<not> success (body (fst (GET_BY_ID empty_config (post_by_id ''42''))))"
proof -
  have p1: "path_parts (post_by_id ''42'') = ''posts'' # ''42'' # []"
    by code_simp
  have p2: "path_parts (post_by_id ''abc'') = ''posts'' # ''abc'' # []"
    by code_simp
  have t: "map_of (schema sample_config) ''posts'' = Some posts"
    "map_of (schema empty_config) ''posts'' = Some posts"
    by (simp_all add: sample_config_def empty_config_def)
  have i: "table_get posts ''id'' = Some (Column posts_id)"
    by (simp add: table_get_def posts_def)
  have d1: "all_digits ''42''" and d2: "\<not> all_digits ''abc''"
    by (simp_all add: all_digits_def is_digit_def)
  have r1: "db sample_config (Select (by_id_query posts (Column posts_id) v)) = Inr [hd sample_rows]" for v
    by (simp add: sample_config_def by_id_query_def sample_rows_def)
  have r0: "db empty_config q = Inr []" for q
    by (simp add: empty_config_def empty_db_def)
  from GET_BY_ID_lookup [OF p1 t(1) i] d1 decimal_42 r1
  have a: "snd (GET_BY_ID sample_config (post_by_id ''42''))
             = [Select (by_id_query posts (Column posts_id) (JNum 42))]
           \<and> data (body (fst (GET_BY_ID sample_config (post_by_id ''42'')))) = Some (hd sample_rows)"
    by auto
  from GET_BY_ID_lookup [OF p2 t(1) i] d2
  have b: "snd (GET_BY_ID sample_config (post_by_id ''abc''))
             = [Select (by_id_query posts (Column posts_id) (JStr ''abc''))]"
    by auto
  from GET_BY_ID_lookup [OF p1 t(2) i] r0
  have c: "status (fst (GET_BY_ID empty_config (post_by_id ''42''))) = 404
           \<and> \<not> success (body (fst (GET_BY_ID empty_config (post_by_id ''42''))))"
    by auto
  from p1 p2 a b c show ?thesis by simp
qed

section \<open>Update and delete by id only\<close>

lemma show_nat_0: "show_nat 0 = ''0''"
  by code_simp

lemma by_id_only_iff: "by_id_only w \<longleftrightarrow> (\<exists>v. w = JObj [(''id'', v)])"
proof (cases w)
  case (JObj kvs)
  show ?thesis
  proof (cases kvs)
    case Nil
    with JObj show ?thesis by (simp add: by_id_only_def Object_keys_def)
  next
    case (Cons kv rest)
    with JObj show ?thesis
      by (cases kv) (auto simp: by_id_only_def Object_keys_def has_key_def)
  qed
next
  case (JArr xs)
  have "\<not> by_id_only (JArr xs)"
  proof (cases xs)
    case Nil
    then show ?thesis by (simp add: by_id_only_def Object_keys_def)
  next
    case (Cons x rest)
    then show ?thesis
      by (cases rest) (auto simp: by_id_only_def Object_keys_def has_key_def show_nat_0)
  qed
  with JArr show ?thesis by simp
qed (simp_all add: by_id_only_def)

text \<open>
  Claim C5.  On a known table, an update or a delete whose parsed \<^verbatim>\<open>where\<close> is not an
  object with the single key \<^verbatim>\<open>id\<close> (the parameter is missing or is not JSON, or the
  value is not an object, has no key, several keys, or one other key) is answered with
  \<^verbatim>\<open>success: false\<close> and status 400, and no query reaches the executor.  A filter
  \<^verbatim>\<open>{"id": v}\<close> passes: the delete goes on to compile it, and so does the update once it
  has a body that is an object.
\<close>

theorem mutation_by_id_only:
  assumes "extractTableFromUrl request = Some tableName"
    and "map_of (schema config) tableName = Some tableSchema"
  shows \<open>((\<nexists>v. p_where (parseQueryParams rt request) = Some (JObj [(''id'', v)])) \<longrightarrow>
            PUT rt config request
              = (failure 400 ''Update is only allowed by id. Use ?where={"id":1}'', [])
            \<and> DELETE rt config request
              = (failure 400 ''Delete is only allowed by id. Use ?where={"id":1}'', [])
            \<and> status (fst (PUT rt config request)) = 400
            \<and> \<not> success (body (fst (PUT rt config request)))
            \<and> status (fst (DELETE rt config request)) = 400
            \<and> \<not> success (body (fst (DELETE rt config request))))
         \<and> (\<forall>v. p_where (parseQueryParams rt request) = Some (JObj [(''id'', v)]) \<longrightarrow>
               DELETE rt config request
                 = (case buildWhereCondition (JObj [(''id'', v)]) tableSchema of
                      Inl e \<Rightarrow> (failure_with 500 ''Internal server error'' (error_message e), [])
                    | Inr None \<Rightarrow> (failure 400 ''Invalid WHERE condition'', [])
                    | Inr (Some whereCondition) \<Rightarrow>
                        execute_mutation config (Delete tableSchema whereCondition)
                          ''deleted'' ''Database delete failed'')
               \<and> (\<forall>d. json_body request = Some d \<and> truthy d \<and> typeof_object d \<longrightarrow>
                     PUT rt config request
                       = (case buildWhereCondition (JObj [(''id'', v)]) tableSchema of
                            Inl e \<Rightarrow> (failure 400 ''Invalid JSON in request body'', [])
                          | Inr None \<Rightarrow> (failure 400 ''Invalid WHERE condition'', [])
                          | Inr (Some whereCondition) \<Rightarrow>
                              execute_mutation config (Update tableSchema d whereCondition)
                                ''updated'' ''Database update failed'')))\<close>
proof -
  have reject: \<open>PUT rt config request
          = (failure 400 ''Update is only allowed by id. Use ?where={"id":1}'', [])
        \<and> DELETE rt config request
          = (failure 400 ''Delete is only allowed by id. Use ?where={"id":1}'', [])\<close>
    if "\<nexists>v. p_where (parseQueryParams rt request) = Some (JObj [(''id'', v)])"
  proof (cases "p_where (parseQueryParams rt request)")
    case None
    with assms show ?thesis by (simp add: PUT_def DELETE_def)
  next
    case (Some w)
    with that have "\<not> by_id_only w" by (auto simp: by_id_only_iff)
    with Some assms show ?thesis by (simp add: PUT_def DELETE_def)
  qed
  have accept_delete: "DELETE rt config request
          = (case buildWhereCondition (JObj [(''id'', v)]) tableSchema of
               Inl e \<Rightarrow> (failure_with 500 ''Internal server error'' (error_message e), [])
             | Inr None \<Rightarrow> (failure 400 ''Invalid WHERE condition'', [])
             | Inr (Some whereCondition) \<Rightarrow>
                 execute_mutation config (Delete tableSchema whereCondition)
                   ''deleted'' ''Database delete failed'')"
    if "p_where (parseQueryParams rt request) = Some (JObj [(''id'', v)])" for v
  proof -
    have "by_id_only (JObj [(''id'', v)])" by (auto simp: by_id_only_iff)
    with that assms show ?thesis by (simp add: DELETE_def)
  qed
  have accept_put: "PUT rt config request
          = (case buildWhereCondition (JObj [(''id'', v)]) tableSchema of
               Inl e \<Rightarrow> (failure 400 ''Invalid JSON in request body'', [])
             | Inr None \<Rightarrow> (failure 400 ''Invalid WHERE condition'', [])
             | Inr (Some whereCondition) \<Rightarrow>
                 execute_mutation config (Update tableSchema d whereCondition)
                   ''updated'' ''Database update failed'')"
    if "p_where (parseQueryParams rt request) = Some (JObj [(''id'', v)])"
      and "json_body request = Some d" "truthy d" "typeof_object d" for v d
  proof -
    have "by_id_only (JObj [(''id'', v)])" by (auto simp: by_id_only_iff)
    with that assms show ?thesis by (simp add: PUT_def)
  qed
  from reject accept_delete accept_put show ?thesis
    by (simp add: failure_facts)
qed

text \<open>A filter with two keys is refused by both handlers; the filter \<^verbatim>\<open>{"id":1}\<close>
  reaches the executor as an equality on the \<^verbatim>\<open>id\<close> column.\<close>

theorem mutation_by_id_only_witness:
  \<open>extractTableFromUrl (posts_request [(''where'', ''{"id":1,"name":"x"}'')] (Some (JObj [])))
     = Some ''posts''
   \<and> map_of (schema sample_config) ''posts'' = Some posts
   \<and> PUT sample_runtime sample_config
         (posts_request [(''where'', ''{"id":1,"name":"x"}'')] (Some (JObj [])))
       = (failure 400 ''Update is only allowed by id. Use ?where={"id":1}'', [])
   \<and> DELETE sample_runtime sample_config
         (posts_request [(''where'', ''{"id":1,"name":"x"}'')] (Some (JObj [])))
       = (failure 400 ''Delete is only allowed by id. Use ?where={"id":1}'', [])
   \<and> snd (DELETE sample_runtime sample_config
         (posts_request [(''where'', ''{"id":1}'')] (Some (JObj []))))
       = [Delete posts (And [Eq (Column posts_id) (JNum 1)])]
   \<and> snd (PUT sample_runtime sample_config
         (posts_request [(''where'', ''{"id":1}'')] (Some (JObj []))))
       = [Update posts (JObj []) (And [Eq (Column posts_id) (JNum 1)])]\<close>
proof -
  let ?two = \<open>posts_request [(''where'', ''{"id":1,"name":"x"}'')] (Some (JObj []))\<close>
  let ?one = \<open>posts_request [(''where'', ''{"id":1}'')] (Some (JObj []))\<close>
  have t2: "extractTableFromUrl ?two = Some ''posts''" and t1: "extractTableFromUrl ?one = Some ''posts''"
    by code_simp+
  have s: "map_of (schema sample_config) ''posts'' = Some posts"
    by (simp add: sample_config_def)
  have w2: "p_where (parseQueryParams sample_runtime ?two)
              = Some (JObj [(''id'', JNum 1), (''name'', JStr ''x'')])"
    by code_simp
  have w1: "p_where (parseQueryParams sample_runtime ?one) = Some (JObj [(''id'', JNum 1)])"
    by code_simp
  have b: "json_body ?one = Some (JObj [])"
    by (simp add: posts_request_def)
  have c: "buildWhereCondition (JObj [(''id'', JNum 1)]) posts = Inr (Some (And [Eq (Column posts_id) (JNum 1)]))"
    by code_simp
  have e: "snd (execute_mutation sample_config q verb failed) = [q]" for q verb failed
    by (simp add: execute_mutation_def split: sum.splits)
  from mutation_by_id_only [OF t2 s, of sample_runtime] w2
  have r2: \<open>PUT sample_runtime sample_config ?two
              = (failure 400 ''Update is only allowed by id. Use ?where={"id":1}'', [])
            \<and> DELETE sample_runtime sample_config ?two
              = (failure 400 ''Delete is only allowed by id. Use ?where={"id":1}'', [])\<close>
    by simp
  from mutation_by_id_only [OF t1 s, of sample_runtime] w1 b c
  have r1: "DELETE sample_runtime sample_config ?one
              = execute_mutation sample_config (Delete posts (And [Eq (Column posts_id) (JNum 1)]))
                  ''deleted'' ''Database delete failed''
            \<and> PUT sample_runtime sample_config ?one
              = execute_mutation sample_config (Update posts (JObj []) (And [Eq (Column posts_id) (JNum 1)]))
                  ''updated'' ''Database update failed''"
    by simp
  from t2 s r2 r1 show ?thesis
    by (simp add: e)
qed

section \<open>Malformed JSON in a query parameter\<close>

lemma map_of_filter_other:
  "map_of (filter (\<lambda>kv. fst kv \<noteq> key) ps) k = (if k = key then None else map_of ps k)"
  by (induction ps) auto

lemma search_param_without:
  "search_param (without key request) k = (if k = key then None else search_param request k)"
  by (simp add: search_param_def without_def map_of_filter_other)

lemma search_param_unparsed:
  "map_of (searchParams request) key = Some w \<Longrightarrow> JSON_parse rt w = None
   \<Longrightarrow> (case search_param request key of None \<Rightarrow> None | Some t \<Rightarrow> JSON_parse rt t) = None"
  by (simp add: search_param_def)

lemma parseQueryParams_without_where:
  assumes "map_of (searchParams request) ''where'' = Some w" and "JSON_parse rt w = None"
  shows "parseQueryParams rt (without ''where'' request) = parseQueryParams rt request"
    and "p_where (parseQueryParams rt request) = None"
  using search_param_unparsed [OF assms]
  by (simp_all add: parseQueryParams_def search_param_without)

lemma parseQueryParams_without_orderBy:
  assumes "map_of (searchParams request) ''orderBy'' = Some w" and "JSON_parse rt w = None"
  shows "parseQueryParams rt (without ''orderBy'' request) = parseQueryParams rt request"
    and "p_orderBy (parseQueryParams rt request) = None"
  using search_param_unparsed [OF assms]
  by (simp_all add: parseQueryParams_def search_param_without)

lemma extractTableFromUrl_without:
  "extractTableFromUrl (without key request) = extractTableFromUrl request"
  by (simp add: extractTableFromUrl_def path_parts_def without_def)

lemma GET_same_params:
  assumes "parseQueryParams rt request' = parseQueryParams rt request"
    and "extractTableFromUrl request' = extractTableFromUrl request"
  shows "GET rt config request' = GET rt config request"
  unfolding GET_def assms by (rule refl)

lemma GET_calls_shape:
  "snd (GET rt config request) = []
   \<or> (\<exists>tableName tableSchema q.
         GET_query rt config tableName tableSchema (parseQueryParams rt request) = Inr q
         \<and> snd (GET rt config request) = [Select q])"
  by (auto simp: GET_def Let_def split: option.splits sum.splits early.splits)

lemma GET_query_no_where:
  "p_where params = None \<Longrightarrow> GET_query rt config tableName tableSchema params = Inr q
   \<Longrightarrow> q_where q = None"
  by (auto simp: GET_query_def where_stage_def split: sum.splits)

lemma GET_query_no_orderBy:
  "p_orderBy params = None \<Longrightarrow> GET_query rt config tableName tableSchema params = Inr q
   \<Longrightarrow> q_orderBy q = []"
  by (auto simp: GET_query_def order_stage_def split: sum.splits)

text \<open>
  Claim C10.  A \<^verbatim>\<open>where\<close> (or \<^verbatim>\<open>orderBy\<close>) parameter of a list request that
  \<^verbatim>\<open>JSON.parse\<close> rejects is treated as absent: the handler answers exactly as it answers
  the request without that parameter, and a query that reaches the executor carries no
  predicate (no ordering).
\<close>

theorem malformed_json_parameter_ignored:
  "(\<forall>w. map_of (searchParams request) ''where'' = Some w \<and> JSON_parse rt w = None \<longrightarrow>
        GET rt config request = GET rt config (without ''where'' request)
        \<and> (snd (GET rt config request) = []
            \<or> (\<exists>q. snd (GET rt config request) = [Select q] \<and> q_where q = None)))
   \<and> (\<forall>w. map_of (searchParams request) ''orderBy'' = Some w \<and> JSON_parse rt w = None \<longrightarrow>
        GET rt config request = GET rt config (without ''orderBy'' request)
        \<and> (snd (GET rt config request) = []
            \<or> (\<exists>q. snd (GET rt config request) = [Select q] \<and> q_orderBy q = [])))"
proof -
  have a: "GET rt config request = GET rt config (without ''where'' request)
        \<and> (snd (GET rt config request) = []
            \<or> (\<exists>q. snd (GET rt config request) = [Select q] \<and> q_where q = None))"
    if "map_of (searchParams request) ''where'' = Some w" and "JSON_parse rt w = None" for w
  proof -
    note p = parseQueryParams_without_where [OF that]
    have "GET rt config (without ''where'' request) = GET rt config request"
      by (rule GET_same_params) (simp_all add: p(1) extractTableFromUrl_without)
    moreover have "snd (GET rt config request) = []
            \<or> (\<exists>q. snd (GET rt config request) = [Select q] \<and> q_where q = None)"
      using GET_calls_shape [of rt config request] GET_query_no_where [OF p(2)] by blast
    ultimately show ?thesis by simp
  qed
  have b: "GET rt config request = GET rt config (without ''orderBy'' request)
        \<and> (snd (GET rt config request) = []
            \<or> (\<exists>q. snd (GET rt config request) = [Select q] \<and> q_orderBy q = []))"
    if "map_of (searchParams request) ''orderBy'' = Some w" and "JSON_parse rt w = None" for w
  proof -
    note p = parseQueryParams_without_orderBy [OF that]
    have "GET rt config (without ''orderBy'' request) = GET rt config request"
      by (rule GET_same_params) (simp_all add: p(1) extractTableFromUrl_without)
    moreover have "snd (GET rt config request) = []
            \<or> (\<exists>q. snd (GET rt config request) = [Select q] \<and> q_orderBy q = [])"
      using GET_calls_shape [of rt config request] GET_query_no_orderBy [OF p(2)] by blast
    ultimately show ?thesis by simp
  qed
  from a b show ?thesis by blast
qed

text \<open>The text \<^verbatim>\<open>{"title":\<close> as \<^verbatim>\<open>where\<close> and as \<^verbatim>\<open>orderBy\<close>: the answer is that of
  the plain list request, all three rows with status 200.\<close>

theorem malformed_json_parameter_ignored_witness:
  \<open>map_of (searchParams (list_posts [(''where'', ''{"title":'')])) ''where'' = Some ''{"title":''
   \<and> map_of (searchParams (list_posts [(''orderBy'', ''{"title":'')])) ''orderBy'' = Some ''{"title":''
   \<and> JSON_parse sample_runtime ''{"title":'' = None
   \<and> GET sample_runtime sample_config (list_posts [(''where'', ''{"title":'')])
       = GET sample_runtime sample_config (list_posts [])
   \<and> GET sample_runtime sample_config (list_posts [(''orderBy'', ''{"title":'')])
       = GET sample_runtime sample_config (list_posts [])
   \<and> status (fst (GET sample_runtime sample_config (list_posts []))) = 200
   \<and> data (body (fst (GET sample_runtime sample_config (list_posts [])))) = Some (JArr sample_rows)\<close>
proof -
  have w: \<open>map_of (searchParams (list_posts [(''where'', ''{"title":'')])) ''where'' = Some ''{"title":''\<close>
    and ob: \<open>map_of (searchParams (list_posts [(''orderBy'', ''{"title":'')])) ''orderBy'' = Some ''{"title":''\<close>
    by (simp_all add: list_posts_def)
  have p: \<open>JSON_parse sample_runtime ''{"title":'' = None\<close>
    by (simp add: sample_runtime_def sample_parse_def)
  have r: \<open>without ''where'' (list_posts [(''where'', ''{"title":'')]) = list_posts []\<close>
    \<open>without ''orderBy'' (list_posts [(''orderBy'', ''{"title":'')]) = list_posts []\<close>
    by (simp_all add: without_def list_posts_def)
  have a: \<open>GET sample_runtime sample_config (list_posts [(''where'', ''{"title":'')])
       = GET sample_runtime sample_config (list_posts [])\<close>
    using malformed_json_parameter_ignored
      [of \<open>list_posts [(''where'', ''{"title":'')]\<close> sample_runtime sample_config] w p
    by (simp add: r)
  have b: \<open>GET sample_runtime sample_config (list_posts [(''orderBy'', ''{"title":'')])
       = GET sample_runtime sample_config (list_posts [])\<close>
    using malformed_json_parameter_ignored
      [of \<open>list_posts [(''orderBy'', ''{"title":'')]\<close> sample_runtime sample_config] ob p
    by (simp add: r)
  have c: "status (fst (GET sample_runtime sample_config (list_posts []))) = 200"
    "data (body (fst (GET sample_runtime sample_config (list_posts [])))) = Some (JArr sample_rows)"
    by code_simp+
  from w ob p a b c show ?thesis by simp
qed

section \<open>The operators of a field node\<close>

text \<open>
  Claim C1.  The operators \<^verbatim>\<open>eq, gt, gte, lt, lte, ilike\<close> compile to the condition of
  the same name and \<^verbatim>\<open>ne\<close> to the negation of \<^verbatim>\<open>eq\<close>; the operator \<^verbatim>\<open>like\<close>
  compiles to the case-insensitive \<^verbatim>\<open>ilike\<close> as well, never to the case-sensitive
  \<^verbatim>\<open>like\<close>.  The filter \<^verbatim>\<open>{"title":{"like":"%Intro%"}}\<close> on the table
  \<^verbatim>\<open>posts\<close> is compiled to an \<^verbatim>\<open>ilike\<close> on the column \<^verbatim>\<open>title\<close>.
\<close>

theorem like_compiled_as_ilike:
  "operator_condition col (''eq'', v) = Some (Eq col v)
   \<and> operator_condition col (''ne'', v) = Some (Not_sql (Eq col v))
   \<and> operator_condition col (''gt'', v) = Some (Gt col v)
   \<and> operator_condition col (''gte'', v) = Some (Gte col v)
   \<and> operator_condition col (''lt'', v) = Some (Lt col v)
   \<and> operator_condition col (''lte'', v) = Some (Lte col v)
   \<and> operator_condition col (''ilike'', v) = Some (Ilike col v)
   \<and> operator_condition col (''like'', v) = Some (Ilike col v)
   \<and> operator_condition col (''like'', v) \<noteq> Some (Like col v)
   \<and> table_get posts ''title'' = Some (Column posts_title)
   \<and> buildWhereCondition (JObj [(''title'', JObj [(''like'', JStr ''%Intro%'')])]) posts
       = Inr (Some (And [And [Ilike (Column posts_title) (JStr ''%Intro%'')]]))"
proof -
  have "buildWhereCondition (JObj [(''title'', JObj [(''like'', JStr ''%Intro%'')])]) posts
       = Inr (Some (And [And [Ilike (Column posts_title) (JStr ''%Intro%'')]]))"
    by code_simp
  moreover have "table_get posts ''title'' = Some (Column posts_title)"
    by (simp add: table_get_def posts_def)
  ultimately show ?thesis
    by (simp add: operator_condition_def)
qed

section \<open>Pagination\<close>

text \<open>An offset other than zero is used whatever the page; without an offset, page and
  limit together give \<open>(page - 1) * limit\<close>; a page without a limit gives no offset.\<close>

lemma pagination_offset_nonzero:
  "p_offset params = Some k \<Longrightarrow> k \<noteq> 0 \<Longrightarrow> pagination_offset params = Some k"
  by (simp add: pagination_offset_def if_truthy_def)

lemma pagination_offset_page:
  "p_offset params = None \<Longrightarrow> p_page params = Some page \<Longrightarrow> p_limit params = Some limit
   \<Longrightarrow> page \<noteq> 0 \<Longrightarrow> limit \<noteq> 0 \<Longrightarrow> pagination_offset params = Some ((page - 1) * limit)"
  by (simp add: pagination_offset_def if_truthy_def)

lemma pagination_offset_no_limit:
  "p_limit params = None \<Longrightarrow> pagination_offset params = if_truthy (p_offset params)"
  by (simp add: pagination_offset_def if_truthy_def split: option.splits)

lemma pagination_examples:
  "pagination_offset (parseQueryParams sample_runtime (list_posts [(''limit'', ''10''), (''page'', ''2'')]))
     = Some 10"
  "pagination_offset (parseQueryParams sample_runtime
       (list_posts [(''offset'', ''5''), (''page'', ''2''), (''limit'', ''10'')])) = Some 5"
  by code_simp+

text \<open>
  Claim C4.  The request \<^verbatim>\<open>offset=0&page=2&limit=10\<close>: the offset 0 is parsed and kept
  in the parameters, yet the query is built with the offset 10 of page 2, since the handler
  tests the offset for truthiness.
\<close>

theorem zero_offset_yields_to_page:
  "p_offset (parseQueryParams sample_runtime
       (list_posts [(''offset'', ''0''), (''page'', ''2''), (''limit'', ''10'')])) = Some 0
   \<and> pagination_offset (parseQueryParams sample_runtime
       (list_posts [(''offset'', ''0''), (''page'', ''2''), (''limit'', ''10'')])) = Some 10
   \<and> snd (GET sample_runtime sample_config
       (list_posts [(''offset'', ''0''), (''page'', ''2''), (''limit'', ''10'')]))
       = [Select \<lparr> q_fields = None, q_from = posts, q_where = None, q_orderBy = [],
                   q_limit = Some 10, q_offset = Some 10 \<rparr>]"
  by code_simp

section \<open>Ordering\<close>

text \<open>An entry of the order specification whose key is neither a property of the table
  object nor \<^verbatim>\<open>*\<close>, or
  whose direction is not exactly \<^verbatim>\<open>asc\<close> or \<^verbatim>\<open>desc\<close>, makes the loop resolve with
  a 400; the list request is then refused before the executor is called, provided the
  specification has no key \<^verbatim>\<open>hasOwnProperty\<close> and the filter compiled.\<close>

lemma order_loop_offending_entry:
  assumes "map_of (schema config) tableName = Some tableSchema"
    and "(key, direction) \<in> set entries"
    and "(key \<noteq> ''*'' \<and> table_get tableSchema key = None)
         \<or> (direction \<noteq> JStr ''asc'' \<and> direction \<noteq> JStr ''desc'')"
  shows "\<exists>r. order_loop rt config tableName tableSchema entries = Inl r"
  using assms(2)
proof (induction entries)
  case Nil
  then show ?case by simp
next
  case (Cons entry entries)
  obtain k d where entry: "entry = (k, d)" by (cases entry)
  show ?case
  proof (cases "entry = (key, direction)")
    case True
    with entry assms(1,3) show ?thesis
      by (auto simp: validateFields_def)
  next
    case False
    with Cons obtain r where "order_loop rt config tableName tableSchema entries = Inl r"
      by auto
    with entry show ?thesis by simp
  qed
qed

lemma GET_rejects_invalid_order:
  assumes "extractTableFromUrl request = Some tableName"
    and "map_of (schema config) tableName = Some tableSchema"
    and "where_stage tableSchema (parseQueryParams rt request) = Inr whereCondition"
    and "p_orderBy (parseQueryParams rt request) = Some (JObj entries)"
    and "map_of entries ''hasOwnProperty'' = None"
    and "(key, direction) \<in> set entries"
    and "(key \<noteq> ''*'' \<and> table_get tableSchema key = None)
         \<or> (direction \<noteq> JStr ''asc'' \<and> direction \<noteq> JStr ''desc'')"
  shows "status (fst (GET rt config request)) = 400
         \<and> \<not> success (body (fst (GET rt config request)))
         \<and> snd (GET rt config request) = []"
proof -
  from order_loop_offending_entry [OF assms(2,6,7)]
  obtain r where r: "order_loop rt config tableName tableSchema entries = Inl r"
    by blast
  then have ord: "order_stage rt config tableName tableSchema (parseQueryParams rt request)
                    = Inl (Resolve r)"
    using assms(4,5) by (simp add: order_stage_def hasOwnProperty_callable_def)
  from order_loop_rejects [OF r] have bad: "status r = 400 \<and> \<not> success (body r)" .
  have "\<exists>r'. GET_query rt config tableName tableSchema (parseQueryParams rt request) = Inl (Resolve r')
             \<and> status r' = 400 \<and> \<not> success (body r')"
  proof (cases "select_stage config tableName tableSchema (parseQueryParams rt request)")
    case (Inl r')
    then have "status r' = 400 \<and> \<not> success (body r')"
      by (auto simp: select_stage_def Let_def failure_def split: option.splits if_splits)
    with Inl show ?thesis by (simp add: GET_query_def)
  next
    case (Inr selectFields)
    with assms(3) ord bad show ?thesis by (simp add: GET_query_def)
  qed
  then obtain r' where "GET_query rt config tableName tableSchema (parseQueryParams rt request) = Inl (Resolve r')"
    and "status r' = 400 \<and> \<not> success (body r')"
    by blast
  with assms(1,2) show ?thesis
    by (simp add: GET_def)
qed

lemma order_examples:
  \<open>GET sample_runtime sample_config (list_posts [(''orderBy'', ''{"bogusField":"asc"}'')])
     = (failure 400 ''Invalid field "bogusField" in orderBy'', [])\<close>
  \<open>GET sample_runtime sample_config (list_posts [(''orderBy'', ''{"title":"DESC"}'')])
     = (failure 400 ''Invalid direction "DESC" for field "title". Use "asc" or "desc"'', [])\<close>
  \<open>snd (GET sample_runtime sample_config (list_posts [(''orderBy'', ''{"title":"desc"}'')]))
     = [Select \<lparr> q_fields = None, q_from = posts, q_where = None,
                  q_orderBy = [Desc (Some (Column posts_title))], q_limit = None, q_offset = None \<rparr>]\<close>
  by code_simp+

text \<open>
  Claim C6.  The request \<^verbatim>\<open>orderBy={"*":"asc"}\<close> on the table \<^verbatim>\<open>posts\<close>, which has
  no column \<^verbatim>\<open>*\<close>: the key passes \<^verbatim>\<open>validateFields\<close>, the executor is called with
  an ordering on no column, and the answer is not a 400.  The request
  \<^verbatim>\<open>orderBy={"hasOwnProperty":1}\<close> is answered with status 500.
\<close>

theorem star_order_key_reaches_executor:
  \<open>table_get posts ''*'' = None
   \<and> snd (GET sample_runtime sample_config (list_posts [(''orderBy'', ''{"*":"asc"}'')]))
       = [Select \<lparr> q_fields = None, q_from = posts, q_where = None, q_orderBy = [Asc None],
                   q_limit = None, q_offset = None \<rparr>]
   \<and> status (fst (GET sample_runtime sample_config (list_posts [(''orderBy'', ''{"*":"asc"}'')])))
       \<noteq> 400
   \<and> map_of (own_entries posts) ''hasOwnProperty'' = None
   \<and> GET sample_runtime sample_config (list_posts [(''orderBy'', ''{"hasOwnProperty":1}'')])
       = (failure_with 500 ''Internal server error''
            ''params.orderBy.hasOwnProperty is not a function'', [])\<close>
  by code_simp

section \<open>Unknown fields and operators\<close>

text \<open>A field that names no property of the table object, other than
  \<^verbatim>\<open>hasOwnProperty\<close>, can be removed
  from a filter object without changing what it compiles to; an operator outside the eight
  gives no condition.\<close>

lemma map_of_without_entry:
  "k \<noteq> key \<Longrightarrow> map_of (before @ (key, v) # after) k = map_of (before @ after) k"
  by (induction before) auto

lemma field_conditions_unknown:
  "table_get tableSchema key = None
   \<Longrightarrow> field_conditions (before @ (key, v) # after) tableSchema
       = field_conditions (before @ after) tableSchema"
  by (induction before) (auto split: option.splits sum.splits)

lemma field_part_unknown:
  assumes "table_get tableSchema key = None" and "key \<noteq> ''hasOwnProperty''"
  shows "field_part (JObj (before @ (key, v) # after)) tableSchema
           = field_part (JObj (before @ after)) tableSchema"
proof -
  have h: "map_of (before @ (key, v) # after) ''hasOwnProperty'' = map_of (before @ after) ''hasOwnProperty''"
    by (rule map_of_without_entry) (use assms(2) in simp)
  have c: "hasOwnProperty_callable (JObj (before @ (key, v) # after))
             = hasOwnProperty_callable (JObj (before @ after))"
    unfolding hasOwnProperty_callable_def get_prop.simps h ..
  show ?thesis
  proof (cases "hasOwnProperty_callable (JObj (before @ after))")
    case True
    with c have "objectToEntries (JObj (before @ (key, v) # after)) = Inr (before @ (key, v) # after)"
      and "objectToEntries (JObj (before @ after)) = Inr (before @ after)"
      by (simp_all add: objectToEntries_def)
    with assms(1) show ?thesis
      by (simp add: field_part_def field_conditions_unknown)
  next
    case False
    then have "before @ after \<noteq> []"
      by (auto simp: hasOwnProperty_callable_def)
    with False c have "objectToEntries (JObj (before @ (key, v) # after)) = Inl (TypeError ''obj.hasOwnProperty'')"
      and "objectToEntries (JObj (before @ after)) = Inl (TypeError ''obj.hasOwnProperty'')"
      by (simp_all add: objectToEntries_def)
    then show ?thesis
      by (simp add: field_part_def)
  qed
qed

lemma unknown_field_dropped:
  assumes "table_get tableSchema key = None"
    and "key \<notin> set [''AND'', ''OR'', ''NOT'', ''hasOwnProperty'']"
  shows "buildWhereCondition (JObj (before @ (key, v) # after)) tableSchema
           = buildWhereCondition (JObj (before @ after)) tableSchema"
proof -
  have g: "get_prop (JObj (before @ (key, v) # after)) k = get_prop (JObj (before @ after)) k"
    if "k \<in> set [''AND'', ''OR'', ''NOT'']" for k
    unfolding get_prop.simps by (rule map_of_without_entry) (use that assms(2) in auto)
  have f: "field_part (JObj (before @ (key, v) # after)) tableSchema
           = field_part (JObj (before @ after)) tableSchema"
    using assms by (intro field_part_unknown) auto
  show ?thesis
    unfolding buildWhereCondition.simps [of "JObj (before @ (key, v) # after)"]
      buildWhereCondition.simps [of "JObj (before @ after)"] f
    using g by simp
qed

lemma unknown_operator_skipped:
  assumes "operator \<notin> set [''eq'', ''ne'', ''gt'', ''gte'', ''lt'', ''lte'', ''like'', ''ilike'']"
  shows "operator_condition col (operator, v) = None"
    and "List.map_filter (operator_condition col) (before @ (operator, v) # after)
           = List.map_filter (operator_condition col) (before @ after)"
proof -
  show "operator_condition col (operator, v) = None"
    using assms by (simp add: operator_condition_def)
  then show "List.map_filter (operator_condition col) (before @ (operator, v) # after)
           = List.map_filter (operator_condition col) (before @ after)"
    by (simp add: List.map_filter_def)
qed

lemma unknown_examples:
  "buildWhereCondition (JObj [(''bogus'', JNum 1), (''title'', JStr ''Intro'')]) posts
     = Inr (Some (And [Eq (Column posts_title) (JStr ''Intro'')]))"
  "buildWhereCondition (JObj [(''title'', JObj [(''between'', JNum 1), (''eq'', JStr ''Intro'')])]) posts
     = Inr (Some (And [And [Eq (Column posts_title) (JStr ''Intro'')]]))"
  "buildWhereCondition (JObj [(''bogus'', JNum 1)]) posts = Inr None"
  "buildWhereCondition (JObj [(''AND'', JArr [])]) posts = Inr None"
  "buildWhereCondition (JObj []) posts = Inr None"
  by code_simp+

text \<open>A key the table object inherits, or its own \<^verbatim>\<open>enableRLS\<close>, counts as a
  property: such a field is compiled to a comparison with what is not a column, and such a
  key passes the validation of \<^verbatim>\<open>select\<close> and \<^verbatim>\<open>orderBy\<close>.\<close>

lemma inherited_key_examples:
  \<open>buildWhereCondition (JObj [(''constructor'', JNum 1)]) posts
     = Inr (Some (And [Eq (Other ''constructor'') (JNum 1)]))\<close>
  \<open>validateFields sample_config ''posts'' [''enableRLS'', ''constructor'', ''bogus'']
     = [''enableRLS'', ''constructor'']\<close>
  \<open>snd (GET sample_runtime sample_config (list_posts [(''orderBy'', ''{"toString":"asc"}'')]))
     = [Select \<lparr> q_fields = None, q_from = posts, q_where = None,
                  q_orderBy = [Asc (Some (Other ''toString''))], q_limit = None,
                  q_offset = None \<rparr>]\<close>
  by code_simp+

text \<open>
  Claim C8.  The filter \<^verbatim>\<open>{"hasOwnProperty":1}\<close> names no column of \<^verbatim>\<open>posts\<close>, and
  compiling it raises a \<^verbatim>\<open>TypeError\<close>, as does the unknown operator of
  \<^verbatim>\<open>{"title":{"hasOwnProperty":1}}\<close>; the list request with that filter is answered
  with status 500.
\<close>

theorem hasOwnProperty_field_raises:
  \<open>map_of (own_entries posts) ''hasOwnProperty'' = None
   \<and> buildWhereCondition (JObj [(''hasOwnProperty'', JNum 1)]) posts
       = Inl (TypeError ''obj.hasOwnProperty'')
   \<and> buildWhereCondition (JObj [(''title'', JObj [(''hasOwnProperty'', JNum 1)])]) posts
       = Inl (TypeError ''obj.hasOwnProperty'')
   \<and> GET sample_runtime sample_config (list_posts [(''where'', ''{"hasOwnProperty":1}'')])
       = (failure_with 500 ''Internal server error'' ''obj.hasOwnProperty is not a function'', [])\<close>
  by code_simp

section \<open>The required list of a generated schema\<close>

lemma foldl_field_step_required:
  "snd (foldl (field_step tableName) acc entries)
     = snd acc @ map fst (filter (\<lambda>entry. fst entry \<noteq> ''enableRLS''
                                    \<and> is_required (fieldDef_of (snd entry))) entries)"
  by (induction entries arbitrary: acc) (simp_all add: field_step_def Let_def)

lemma required_output_schema:
  "required (output_schema tableName tableSchema)
     = map fst (filter (\<lambda>entry. fst entry \<noteq> ''enableRLS''
                          \<and> is_required (fieldDef_of (snd entry))) (own_entries tableSchema))"
  by (simp add: output_schema_def Let_def foldl_field_step_required)

lemma is_required_fieldDef_of:
  "is_required (fieldDef_of v)
   \<longleftrightarrow> (case v of Column col \<Rightarrow> notNull col \<or> isNullable col = Some False | Other n \<Rightarrow> False)"
  by (cases v) (auto simp: is_required_def split: option.splits)

lemma map_of_assign: "map_of (assign k v ps) k' = (if k' = k then Some v else map_of ps k')"
  by (induction ps) auto

lemma map_of_schemas_step_other:
  assumes "fst entry \<noteq> tableName" and "fst entry \<in> set excludedTables \<or> fst entry @ ''Input'' \<noteq> tableName"
  shows "map_of (schemas_step excludedTables schemas entry) tableName = map_of schemas tableName"
  using assms by (auto simp: schemas_step_def Let_def map_of_assign)

lemma map_of_schemas_step_same:
  assumes "tableName \<notin> set excludedTables"
  shows "map_of (schemas_step excludedTables schemas (tableName, tableSchema)) tableName
           = Some (TableSchema (output_schema tableName tableSchema))"
  using assms by (simp add: schemas_step_def Let_def map_of_assign)

lemma map_of_foldl_schemas_step:
  assumes "distinct (map fst sch)" and "(tableName, tableSchema) \<in> set sch"
    and "tableName \<notin> set excludedTables"
    and "\<forall>t \<in> set (map fst sch). t \<in> set excludedTables \<or> t @ ''Input'' \<noteq> tableName"
  shows "map_of (foldl (schemas_step excludedTables) init sch) tableName
           = Some (TableSchema (output_schema tableName tableSchema))"
  using assms
proof (induction sch rule: rev_induct)
  case Nil
  then show ?case by simp
next
  case (snoc entry sch)
  show ?case
  proof (cases "entry = (tableName, tableSchema)")
    case True
    with snoc.prems(3) show ?thesis
      by (simp add: map_of_schemas_step_same)
  next
    case False
    with snoc.prems(2) have mem: "(tableName, tableSchema) \<in> set sch" by simp
    with snoc.prems(1) have other: "fst entry \<noteq> tableName"
      by (auto simp: image_iff)
    from snoc.prems(4) have coll: "fst entry \<in> set excludedTables \<or> fst entry @ ''Input'' \<noteq> tableName"
      by simp
    from snoc.prems have "map_of (foldl (schemas_step excludedTables) init sch) tableName
           = Some (TableSchema (output_schema tableName tableSchema))"
      using mem by (intro snoc.IH) auto
    with other coll show ?thesis
      by (simp add: map_of_schemas_step_other)
  qed
qed

text \<open>
  Claim C2, as the code has it.  Take a schema (its table names are the keys of an object,
  hence distinct) and a table of it that is not excluded and whose name is not the name of
  another documented table followed by \<^verbatim>\<open>Input\<close> (the input schema of that table is
  written under such a name).  The schema generated under the table's name lists as
  \<^verbatim>\<open>required\<close> exactly the entries other than \<^verbatim>\<open>enableRLS\<close> that are columns and
  not nullable (\<^verbatim>\<open>notNull\<close> set, or \<^verbatim>\<open>isNullable()\<close> false), in their order.
  Whether a column has a default plays no part: a column that is not nullable and has a
  default is a member.
\<close>

theorem required_lists_notNull_columns:
  assumes "distinct (map fst sch)" and "(tableName, tableSchema) \<in> set sch"
    and "tableName \<notin> set excludedTables"
    and "\<forall>t \<in> set (map fst sch). t \<in> set excludedTables \<or> t @ ''Input'' \<noteq> tableName"
  shows "\<exists>doc. map_of (component_schemas sch excludedTables) tableName = Some (TableSchema doc)
           \<and> required doc
               = map fst (filter (\<lambda>entry. fst entry \<noteq> ''enableRLS''
                                    \<and> (case snd entry of
                                          Column col \<Rightarrow> notNull col \<or> isNullable col = Some False
                                        | Other n \<Rightarrow> False))
                            (own_entries tableSchema))
           \<and> (\<forall>fieldName col.
                 (fieldName, Column col) \<in> set (own_entries tableSchema)
                 \<and> fieldName \<noteq> ''enableRLS'' \<and> notNull col \<and> hasDefault col
                 \<longrightarrow> fieldName \<in> set (required doc))"
proof -
  have "map_of (component_schemas sch excludedTables) tableName
          = Some (TableSchema (output_schema tableName tableSchema))"
    unfolding component_schemas_def using assms by (rule map_of_foldl_schemas_step)
  moreover have "required (output_schema tableName tableSchema)
      = map fst (filter (\<lambda>entry. fst entry \<noteq> ''enableRLS''
                           \<and> (case snd entry of
                                 Column col \<Rightarrow> notNull col \<or> isNullable col = Some False
                               | Other n \<Rightarrow> False))
                   (own_entries tableSchema))"
    by (simp add: required_output_schema is_required_fieldDef_of)
  moreover have "fieldName \<in> set (required (output_schema tableName tableSchema))"
    if "(fieldName, Column col) \<in> set (own_entries tableSchema)" "fieldName \<noteq> ''enableRLS''"
      "notNull col"
    for fieldName col
    using that by (force simp: required_output_schema is_required_fieldDef_of)
  ultimately show ?thesis by blast
qed

text \<open>The table \<^verbatim>\<open>posts\<close> with \<^verbatim>\<open>users\<close> excluded: all six columns are required.\<close>

theorem required_lists_notNull_columns_witness:
  "distinct (map fst (schema sample_config))
   \<and> (''posts'', posts) \<in> set (schema sample_config)
   \<and> ''posts'' \<notin> set [''users'']
   \<and> (\<exists>doc. map_of (component_schemas (schema sample_config) [''users'']) ''posts''
               = Some (TableSchema doc)
            \<and> required doc = [''id'', ''userId'', ''title'', ''content'', ''createdAt'', ''updatedAt''])"
proof -
  have a: "distinct (map fst (schema sample_config))"
    and b: "(''posts'', posts) \<in> set (schema sample_config)"
    and c: "''posts'' \<notin> set [''users'']"
    and d: "\<forall>t \<in> set (map fst (schema sample_config)). t \<in> set [''users''] \<or> t @ ''Input'' \<noteq> ''posts''"
    by (simp_all add: sample_config_def)
  have e: "map fst (filter (\<lambda>entry. fst entry \<noteq> ''enableRLS''
                                    \<and> (case snd entry of
                                          Column col \<Rightarrow> notNull col \<or> isNullable col = Some False
                                        | Other n \<Rightarrow> False))
                            (own_entries posts))
           = [''id'', ''userId'', ''title'', ''content'', ''createdAt'', ''updatedAt'']"
    by (simp add: posts_def posts_id_def posts_title_def plain_column_def)
  from required_lists_notNull_columns [OF a b c d] e a b c show ?thesis
    by auto
qed

text \<open>The column \<^verbatim>\<open>id\<close> of \<^verbatim>\<open>posts\<close> is not nullable and has a default, and it is
  a member of the \<^verbatim>\<open>required\<close> list of the generated schema.  In the schema that
  exports \<^verbatim>\<open>postsInput\<close> before \<^verbatim>\<open>posts\<close>, what is generated under the name
  \<^verbatim>\<open>postsInput\<close> is the input schema of \<^verbatim>\<open>posts\<close>, with the six columns of
  \<^verbatim>\<open>posts\<close> required, although the table \<^verbatim>\<open>postsInput\<close> has no column that is
  not nullable.\<close>

theorem default_column_is_required:
  "table_get posts ''id'' = Some (Column posts_id) \<and> notNull posts_id \<and> hasDefault posts_id
   \<and> isNullable posts_id = None
   \<and> map_of (component_schemas (schema sample_config) []) ''posts''
       = Some (TableSchema (output_schema ''posts'' posts))
   \<and> ''id'' \<in> set (required (output_schema ''posts'' posts))
   \<and> required (output_schema ''posts'' posts)
       = [''id'', ''userId'', ''title'', ''content'', ''createdAt'', ''updatedAt'']
   \<and> map_of (component_schemas colliding_schema []) ''postsInput''
       = Some (TableSchema (input_schema ''posts'' posts))
   \<and> required (input_schema ''posts'' posts)
       = [''id'', ''userId'', ''title'', ''content'', ''createdAt'', ''updatedAt'']
   \<and> required (output_schema ''postsInput'' postsInput) = []"
  by code_simp

end
